theory Spec2Isabelle
  imports Main "HOL-Library.AList"
begin

section \<open>JavaScript values, thrown errors and plain objects\<close>

text \<open>
  The library is a TypeScript module built on three runtime facilities: plain objects
  (header sets, responses), an HTTP client instance (\<open>$http\<close>, made by
  \<open>axios.create\<close>) and \<open>Proxy\<close>/\<open>Reflect\<close>. Two listings of \<open>index.ts\<close> are
  embedded here: the one in \<open>src/src/index.ts\<close> (plain names below) and the extended one
  printed in \<open>src/README.md\<close>, lines 165-294 (names ending in \<open>_ext\<close>), which adds
  interceptors and \<open>createRequest\<close> and decodes responses.

  Several services can exist at once, each with an axios instance of its own, and the
  functions a proxy hands out close over its instance. The instances therefore live in a
  store (\<open>world\<close>) and are named by reference; the functions of the source that work on
  \<open>$http\<close> are first written on the state of one instance and then run on the instance a
  reference names.

  Numbers are integers (nothing here computes with them), a function value that comes from
  the caller is opaque (\<open>JFunction\<close> with a name), a \<open>Uint8Array\<close> is \<open>JBytes\<close>.
\<close>

datatype jsval =
    JUndefined
  | JNull
  | JBool bool
  | JNum int
  | JStr string
  | JArr "jsval list"
  | JObj "(string \<times> jsval) list"
  | JBytes "nat list"
  | JFunction string

text \<open>What a \<open>throw\<close> carries: a \<open>TypeError\<close> or any other thrown value.\<close>

datatype jserr = TypeError string | OtherError string

fun instanceof_TypeError :: "jserr \<Rightarrow> bool" where
  "instanceof_TypeError (TypeError m) = True"
| "instanceof_TypeError (OtherError m) = False"

text \<open>The \<open>typeof\<close> operator and the negation \<open>!v\<close> (true on the falsy values).\<close>

fun typeof :: "jsval \<Rightarrow> string" where
  "typeof JUndefined = ''undefined''"
| "typeof JNull = ''object''"
| "typeof (JBool b) = ''boolean''"
| "typeof (JNum n) = ''number''"
| "typeof (JStr s) = ''string''"
| "typeof (JArr xs) = ''object''"
| "typeof (JObj ps) = ''object''"
| "typeof (JBytes bs) = ''object''"
| "typeof (JFunction f) = ''function''"

fun js_not :: "jsval \<Rightarrow> bool" where
  "js_not JUndefined = True"
| "js_not JNull = True"
| "js_not (JBool b) = (\<not> b)"
| "js_not (JNum n) = (n = 0)"
| "js_not (JStr s) = (s = [])"
| "js_not (JArr xs) = False"
| "js_not (JObj ps) = False"
| "js_not (JBytes bs) = False"
| "js_not (JFunction f) = False"

text \<open>The nullish test of \<open>a ?? b\<close>: only \<open>null\<close> and \<open>undefined\<close> fall through to \<open>b\<close>.\<close>

fun nullish :: "jsval \<Rightarrow> bool" where
  "nullish JUndefined = True"
| "nullish JNull = True"
| "nullish v = False"

text \<open>
  A plain object is the list of its own enumerable properties in insertion order. Where a
  key is written twice the later binding is the one in force, as in an object literal.
\<close>

definition prop_lookup :: "(string \<times> jsval) list \<Rightarrow> string \<Rightarrow> jsval option" where
  "prop_lookup ps k = map_of (rev ps) k"

text \<open>The decimal text of an array index, the key under which an element is a property.\<close>

fun index_key :: "nat \<Rightarrow> string" where
  "index_key n =
     (if n < 10 then [''0123456789'' ! n]
      else index_key (n div 10) @ [''0123456789'' ! (n mod 10)])"

declare index_key.simps [simp del]

text \<open>The own enumerable string-keyed properties of a value: what \<open>{...v}\<close> copies.\<close>

fun own_enumerable :: "jsval \<Rightarrow> (string \<times> jsval) list" where
  "own_enumerable (JObj ps) = ps"
| "own_enumerable (JArr xs) = zip (map index_key [0..<length xs]) xs"
| "own_enumerable (JBytes bs) = zip (map index_key [0..<length bs]) (map (\<lambda>b. JNum (int b)) bs)"
| "own_enumerable (JStr s) = zip (map index_key [0..<length s]) (map (\<lambda>c. JStr [c]) s)"
| "own_enumerable v = []"

text \<open>
  \<open>spread_into acc v\<close> is the object literal under construction, \<open>{ ...acc-so-far, ...v }\<close>:
  each property of \<open>v\<close> is defined on it in order, replacing the value of a key that is
  already there and appending a new key.
\<close>

definition spread_into :: "(string \<times> jsval) list \<Rightarrow> jsval \<Rightarrow> (string \<times> jsval) list" where
  "spread_into acc v = fold (\<lambda>(k, x). AList.update k x) (own_enumerable v) acc"

section \<open>The transport instance\<close>

text \<open>
  \<open>$http\<close> is the one axios instance of a proxy. The proxy reads and writes its
  \<open>defaults.headers\<close>, registers and ejects interceptors and calls \<open>get\<close>, \<open>post\<close>
  and \<open>request\<close> on it; \<open>sent\<close> records those calls in order. What the transport
  answers is outside the library: a \<open>network\<close> gives, for the instance as it is at dispatch
  and the request, the settlement of the returned promise (\<open>Inl\<close> a rejection, \<open>Inr\<close>
  the response object).
\<close>

datatype request = GET string | POST string jsval | REQUEST jsval

record http =
  create_config :: "(string \<times> jsval) list"
  defaults_headers :: "(string \<times> jsval) list"
  request_handlers :: "(jsval \<times> jsval) option list"
  response_handlers :: "(jsval \<times> jsval) option list"
  sent :: "request list"

type_synonym response = "(string \<times> jsval) list"

type_synonym network = "http \<Rightarrow> request \<Rightarrow> jserr + response"

definition http_get :: "network \<Rightarrow> string \<Rightarrow> http \<Rightarrow> (jserr + response) \<times> http" where
  "http_get net url h = (net h (GET url), h\<lparr>sent := sent h @ [GET url]\<rparr>)"

definition http_post :: "network \<Rightarrow> string \<Rightarrow> jsval \<Rightarrow> http \<Rightarrow> (jserr + response) \<times> http" where
  "http_post net url body h = (net h (POST url body), h\<lparr>sent := sent h @ [POST url body]\<rparr>)"

definition http_request :: "network \<Rightarrow> jsval \<Rightarrow> http \<Rightarrow> (jserr + response) \<times> http" where
  "http_request net config h = (net h (REQUEST config), h\<lparr>sent := sent h @ [REQUEST config]\<rparr>)"

text \<open>
  An interceptor chain of axios (\<open>$http.interceptors.request\<close>, \<open>.response\<close>):
  \<open>use\<close> appends the pair of handlers and returns its index, \<open>eject(id)\<close> blanks the
  entry with that index when there is one.
\<close>

definition interceptors_use ::
  "(jsval \<times> jsval) option list \<Rightarrow> jsval \<Rightarrow> jsval \<Rightarrow> jsval \<times> (jsval \<times> jsval) option list" where
  "interceptors_use handlers fulfilled rejected =
     (JNum (int (length handlers)), handlers @ [Some (fulfilled, rejected)])"

definition interceptors_eject ::
  "(jsval \<times> jsval) option list \<Rightarrow> jsval \<Rightarrow> (jsval \<times> jsval) option list" where
  "interceptors_eject handlers ident =
     (case ident of
        JNum n \<Rightarrow> if 0 \<le> n \<and> nat n < length handlers then handlers[nat n := None] else handlers
      | _ \<Rightarrow> handlers)"

text \<open>
  The instance \<open>axios.create(config)\<close> makes, as far as the library relies on it: it
  keeps the configuration, its default headers start as the configured \<open>headers\<close> object,
  it has no interceptors, and nothing has been sent.
\<close>

definition new_instance :: "(string \<times> jsval) list \<Rightarrow> http" where
  "new_instance config =
     \<lparr>create_config = config,
      defaults_headers = (case prop_lookup config ''headers'' of
                            None \<Rightarrow> [] | Some v \<Rightarrow> own_enumerable v),
      request_handlers = [],
      response_handlers = [],
      sent = []\<rparr>"

text \<open>
  The store of instances: \<open>created\<close> counts the instances made so far and is the
  reference the next one gets, \<open>instance_of\<close> gives the state of an instance.
  \<open>axios.create\<close> makes a new instance and returns its reference; \<open>on_instance\<close> runs a
  function of the source on the instance a reference names and changes no other.
\<close>

record world =
  created :: nat
  instance_of :: "nat \<Rightarrow> http"

definition axios_create :: "(string \<times> jsval) list \<Rightarrow> world \<Rightarrow> nat \<times> world" where
  "axios_create config w =
     (created w,
      w\<lparr>created := Suc (created w),
        instance_of := (instance_of w)(created w := new_instance config)\<rparr>)"

definition on_instance :: "nat \<Rightarrow> (http \<Rightarrow> 'a \<times> http) \<Rightarrow> world \<Rightarrow> 'a \<times> world" where
  "on_instance http f w =
     (case f (instance_of w http) of
        (outcome, h') \<Rightarrow> (outcome, w\<lparr>instance_of := (instance_of w)(http := h')\<rparr>))"

section \<open>Header management\<close>

text \<open>
  \<open>addHeadersInternal($http)\<close> of \<open>src/src/index.ts\<close>: the returned function reads its
  first argument from \<open>arguments\<close> (\<open>null\<close> when there is none), throws a \<open>TypeError\<close>
  when it is falsy or not an object, and otherwise replaces the default headers by
  \<open>{ ...$http.defaults.headers, ...headers }\<close>. A call gives the completion (the thrown
  error or the returned \<open>undefined\<close>) and the instance afterwards.
\<close>

definition addHeaders :: "jsval list \<Rightarrow> http \<Rightarrow> (jserr + jsval) \<times> http" where
  "addHeaders arguments h =
     (let headers = (if length arguments > 0 then arguments ! 0 else JNull) in
      if js_not headers \<or> typeof headers \<noteq> ''object''
      then (Inl (TypeError ''this functioun should have one parameter and it must be an object''), h)
      else (Inr JUndefined,
            h\<lparr>defaults_headers :=
                 spread_into (spread_into [] (JObj (defaults_headers h))) headers\<rparr>))"

text \<open>The extended listing names the parameter: it is \<open>undefined\<close> when not passed.\<close>

definition addHeaders_ext :: "jsval list \<Rightarrow> http \<Rightarrow> (jserr + jsval) \<times> http" where
  "addHeaders_ext arguments h =
     (let headers = (case arguments of [] \<Rightarrow> JUndefined | a # _ \<Rightarrow> a) in
      if js_not headers \<or> typeof headers \<noteq> ''object''
      then (Inl (TypeError ''this functioun should have one parameter and it must be an object''), h)
      else (Inr JUndefined,
            h\<lparr>defaults_headers :=
                 spread_into (spread_into [] (JObj (defaults_headers h))) headers\<rparr>))"

text \<open>
  The loop \<open>for (const header of headers) { delete $http.defaults.headers[header]; }\<close>:
  \<open>delete\<close> removes the key when it is there and does nothing otherwise.
\<close>

fun delete_each :: "string list \<Rightarrow> (string \<times> jsval) list \<Rightarrow> (string \<times> jsval) list" where
  "delete_each [] hs = hs"
| "delete_each (header # headers) hs = delete_each headers (AList.delete header hs)"

text \<open>
  \<open>removeHeadersInternal($http)\<close> of \<open>src/src/index.ts\<close>: \<open>headers\<close> is \<open>null\<close> when
  \<open>arguments\<close> is empty and the array \<open>[...arguments]\<close> otherwise (the names are strings
  by the declared type \<open>(...headers: string[]) => void\<close>). \<open>null\<close> throws; the second
  check, \<open>!Array.isArray(headers)\<close>, is then false, since \<open>headers\<close> is an array.
\<close>

definition removeHeaders :: "string list \<Rightarrow> http \<Rightarrow> (jserr + jsval) \<times> http" where
  "removeHeaders arguments h =
     (let headers = (if length arguments \<le> 0 then None else Some arguments) in
      case headers of
        None \<Rightarrow> (Inl (TypeError ''This function should have at least 1 parameter''), h)
      | Some names \<Rightarrow>
          (Inr JUndefined, h\<lparr>defaults_headers := delete_each names (defaults_headers h)\<rparr>))"

text \<open>
  The extended listing takes a rest parameter, \<open>removeHeaders(...headers: string[])\<close>, and
  tests \<open>!headers\<close> on it: \<open>headers\<close> is always an array there, the empty one when no name
  is passed.
\<close>

definition removeHeaders_ext :: "string list \<Rightarrow> http \<Rightarrow> (jserr + jsval) \<times> http" where
  "removeHeaders_ext headers h =
     (if js_not (JArr (map JStr headers))
      then (Inl (TypeError ''This function should have at least 1 parameter''), h)
      else (Inr JUndefined, h\<lparr>defaults_headers := delete_each headers (defaults_headers h)\<rparr>))"

section \<open>Interceptors and \<open>createRequest\<close> (extended listing)\<close>

text \<open>A parameter that is not passed is \<open>undefined\<close>.\<close>

definition parameter :: "jsval list \<Rightarrow> nat \<Rightarrow> jsval" where
  "parameter args i = (if i < length args then args ! i else JUndefined)"

text \<open>
  \<open>addInterceptorInternal($http)\<close>: the returned function
  \<open>addInterceptor(type, onFulfilled, onRejected)\<close> throws a \<open>TypeError\<close> when both
  handlers are falsy; otherwise the \<open>switch\<close> registers the pair on the chain \<open>type\<close>
  names and returns the identifier, and for any other \<open>type\<close> no case matches and the
  function returns \<open>undefined\<close>.
\<close>

definition addInterceptor_ext :: "jsval list \<Rightarrow> http \<Rightarrow> (jserr + jsval) \<times> http" where
  "addInterceptor_ext args h =
     (let type = parameter args 0; onFulfilled = parameter args 1; onRejected = parameter args 2 in
      if js_not onFulfilled \<and> js_not onRejected
      then (Inl (TypeError ''No interceptor was provided''), h)
      else if type = JStr ''request''
      then (case interceptors_use (request_handlers h) onFulfilled onRejected of
              (ident, handlers) \<Rightarrow> (Inr ident, h\<lparr>request_handlers := handlers\<rparr>))
      else if type = JStr ''response''
      then (case interceptors_use (response_handlers h) onFulfilled onRejected of
              (ident, handlers) \<Rightarrow> (Inr ident, h\<lparr>response_handlers := handlers\<rparr>))
      else (Inr JUndefined, h))"

text \<open>
  \<open>removeInterceptorInternal($http)\<close>: \<open>removeInterceptor(type, id)\<close> returns
  \<open>$http.interceptors[type].eject(id)\<close>; for a \<open>type\<close> other than the two chains there
  is no \<open>eject\<close> to call, which is a \<open>TypeError\<close>.
\<close>

definition removeInterceptor_ext :: "jsval list \<Rightarrow> http \<Rightarrow> (jserr + jsval) \<times> http" where
  "removeInterceptor_ext args h =
     (let type = parameter args 0; ident = parameter args 1 in
      if type = JStr ''request''
      then (Inr JUndefined, h\<lparr>request_handlers := interceptors_eject (request_handlers h) ident\<rparr>)
      else if type = JStr ''response''
      then (Inr JUndefined, h\<lparr>response_handlers := interceptors_eject (response_handlers h) ident\<rparr>)
      else (Inl (TypeError ''$http.interceptors[type].eject is not a function''), h))"

text \<open>
  \<open>createRequestInternal($http)\<close>: \<open>createRequest(config)\<close> returns
  \<open>$http.request(config)\<close>.
\<close>

definition createRequest_ext :: "network \<Rightarrow> jsval list \<Rightarrow> http \<Rightarrow> (jserr + response) \<times> http" where
  "createRequest_ext net args h = http_request net (parameter args 0) h"

section \<open>The base object and \<open>Reflect\<close>\<close>

text \<open>
  A property key is a string or a symbol (\<open>PSym\<close> with its description);
  \<open>String(property)\<close> prints a symbol as \<open>Symbol(description)\<close>.
\<close>

datatype propkey = PStr string | PSym string

fun String_of :: "propkey \<Rightarrow> string" where
  "String_of (PStr s) = s"
| "String_of (PSym d) = ''Symbol('' @ d @ '')''"

text \<open>
  A getter runs with a \<open>this\<close>: the base object itself when the property is read on the
  base object, the proxy when it is read through the proxy, since the trap passes its
  receiver on (\<open>Reflect.get(target, property, reciever)\<close>). What a getter yields can
  depend on it: through the proxy every \<open>this.member\<close> is itself a trapped read, and a
  private field or an internal slot of the base object is not there at all.
\<close>

datatype receiver = The_base | The_proxy

text \<open>
  The base object (\<open>baseService\<close>, the proxy's target) holds data properties and
  accessors, each with its attributes. A data property has a value and is or is not
  writable and configurable. An accessor has a getter or none, given by what running it
  yields for each receiver (a value or a thrown error; what else a getter or a setter does
  is outside this model), and is or is not configurable. \<open>own\<close> are the object's own
  properties, \<open>inherited\<close> the ones found along its prototype chain, and \<open>extensible\<close>
  tells whether new properties can be added. \<open>Object.freeze\<close> leaves an object with
  data properties that are neither writable nor configurable and not extensible.
\<close>

datatype slot =
    Data jsval bool bool
  | Accessor "(receiver \<Rightarrow> jserr + jsval) option" bool

record jsobject =
  own :: "(propkey \<times> slot) list"
  inherited :: "(propkey \<times> slot) list"
  extensible :: bool

text \<open>A property as an object literal or an assignment makes it, and as freezing leaves it.\<close>

definition plain :: "jsval \<Rightarrow> slot" where
  "plain v = Data v True True"

definition frozen :: "jsval \<Rightarrow> slot" where
  "frozen v = Data v False False"

fun read_slot :: "slot \<Rightarrow> receiver \<Rightarrow> jserr + jsval" where
  "read_slot (Data v writable configurable) this = Inr v"
| "read_slot (Accessor None configurable) this = Inr JUndefined"
| "read_slot (Accessor (Some getter) configurable) this = getter this"

fun slot_configurable :: "slot \<Rightarrow> bool" where
  "slot_configurable (Data v writable configurable) = configurable"
| "slot_configurable (Accessor getter configurable) = configurable"

definition find_slot :: "jsobject \<Rightarrow> propkey \<Rightarrow> slot option" where
  "find_slot obj p =
     (case map_of (own obj) p of
        Some s \<Rightarrow> Some s
      | None \<Rightarrow> map_of (inherited obj) p)"

text \<open>
  \<open>Reflect.get(obj, p, receiver)\<close>: the property's value, with a getter run on the
  receiver, and \<open>undefined\<close> when there is no such property.
\<close>

definition Reflect_get :: "jsobject \<Rightarrow> propkey \<Rightarrow> receiver \<Rightarrow> jserr + jsval" where
  "Reflect_get obj p this =
     (case find_slot obj p of
        None \<Rightarrow> Inr JUndefined
      | Some s \<Rightarrow> read_slot s this)"

text \<open>\<open>Reflect.has\<close> (the \<open>in\<close> operator) and \<open>Reflect.ownKeys\<close> (key enumeration).\<close>

definition Reflect_has :: "jsobject \<Rightarrow> propkey \<Rightarrow> bool" where
  "Reflect_has obj p = (find_slot obj p \<noteq> None)"

definition Reflect_ownKeys :: "jsobject \<Rightarrow> propkey list" where
  "Reflect_ownKeys obj = map fst (own obj)"

text \<open>
  \<open>Reflect.set\<close>: the value of an own writable data property is replaced; where the
  name is not an own property and what is inherited under it does not stand in the way, an
  extensible object gets a new own property. The write is refused, and the object left as
  it is, on a data property that is not writable (own or inherited) and on an object that
  is not extensible. On an accessor (own or inherited) the setter runs, or the write is
  refused when there is none; no data property is stored.
\<close>

definition add_property :: "jsobject \<Rightarrow> propkey \<Rightarrow> jsval \<Rightarrow> jsobject" where
  "add_property obj p v =
     (if extensible obj then obj\<lparr>own := own obj @ [(p, plain v)]\<rparr> else obj)"

definition Reflect_set :: "jsobject \<Rightarrow> propkey \<Rightarrow> jsval \<Rightarrow> jsobject" where
  "Reflect_set obj p v =
     (case map_of (own obj) p of
        Some (Data old writable configurable) \<Rightarrow>
          if writable then obj\<lparr>own := AList.update p (Data v writable configurable) (own obj)\<rparr>
          else obj
      | Some (Accessor getter configurable) \<Rightarrow> obj
      | None \<Rightarrow>
          (case map_of (inherited obj) p of
             Some (Data old writable configurable) \<Rightarrow> if writable then add_property obj p v else obj
           | Some (Accessor getter configurable) \<Rightarrow> obj
           | None \<Rightarrow> add_property obj p v))"

text \<open>\<open>Reflect.deleteProperty\<close> removes an own property that is configurable.\<close>

definition Reflect_deleteProperty :: "jsobject \<Rightarrow> propkey \<Rightarrow> jsobject" where
  "Reflect_deleteProperty obj p =
     (case map_of (own obj) p of
        None \<Rightarrow> obj
      | Some s \<Rightarrow> if slot_configurable s then obj\<lparr>own := AList.delete p (own obj)\<rparr> else obj)"

text \<open>
  What every plain object inherits from \<open>Object.prototype\<close>: eleven methods, and the
  accessor \<open>__proto__\<close>, whose getter returns the prototype of \<open>this\<close>. For a plain
  object and for a proxy around one that is \<open>Object.prototype\<close>, an object without
  enumerable properties of its own.
\<close>

definition Object_prototype :: "(propkey \<times> slot) list" where
  "Object_prototype =
     map (\<lambda>name. (PStr name, plain (JFunction name)))
       [''constructor'', ''__defineGetter__'', ''__defineSetter__'', ''hasOwnProperty'',
        ''__lookupGetter__'', ''__lookupSetter__'', ''isPrototypeOf'', ''propertyIsEnumerable'',
        ''toString'', ''valueOf'', ''toLocaleString'']
     @ [(PStr ''__proto__'', Accessor (Some (\<lambda>this. Inr (JObj []))) True)]"

text \<open>The object literal \<open>{}\<close>.\<close>

definition empty_object :: jsobject where
  "empty_object = \<lparr>own = [], inherited = Object_prototype, extensible = True\<rparr>"

section \<open>Proxies\<close>

text \<open>
  What a property read on the proxy hands back: a member of the base object as it is, or
  one of the functions the library makes. Each of those closes over \<open>$http\<close>, the
  reference of the instance made in \<open>createService\<close>: \<open>AddHeaders http\<close> is the
  function \<open>addHeadersInternal($http)\<close> returns, and so on; \<open>DefaultTrap\<close> is the
  function \<open>defaultTapInternal\<close> returns and also closes over the service name, the
  property and the msgpack flag. What calling them does is \<open>call_function\<close> below.
\<close>

datatype closure =
    AddHeaders nat
  | RemoveHeaders nat
  | AddInterceptor nat
  | RemoveInterceptor nat
  | CreateRequest nat
  | DefaultTrap nat "string option" propkey bool

datatype got = Member jsval | Function closure

text \<open>
  \<open>new Proxy(target, handler)\<close>: an operation on the proxy runs the handler's trap for
  it when the handler has one and is passed on to the target otherwise. A \<open>get\<close> trap
  is called with the target, the property and the receiver, the proxy itself for a read
  \<open>proxy[p]\<close>.
\<close>

record handler =
  get_handler :: "(jsobject \<Rightarrow> propkey \<Rightarrow> receiver \<Rightarrow> jserr + got) option"
  has_handler :: "(jsobject \<Rightarrow> propkey \<Rightarrow> bool) option"
  ownKeys_handler :: "(jsobject \<Rightarrow> propkey list) option"
  set_handler :: "(jsobject \<Rightarrow> propkey \<Rightarrow> jsval \<Rightarrow> jsobject) option"
  deleteProperty_handler :: "(jsobject \<Rightarrow> propkey \<Rightarrow> jsobject) option"

record proxy =
  target :: jsobject
  traps :: handler

text \<open>
  The engine checks what a \<open>get\<close> trap returned against the target: where the target
  has the name as an own property that is not configurable, a data property that is not
  writable must be reported with its own value, and an accessor without getter as
  \<open>undefined\<close>. Any other result of the trap is a \<open>TypeError\<close>, thrown by the read
  after the trap has returned.
\<close>

definition invariant_violation :: jserr where
  "invariant_violation =
     TypeError ''the get trap reported another value for a non-configurable property''"

definition engine_accepts :: "slot option \<Rightarrow> got \<Rightarrow> bool" where
  "engine_accepts own_slot result =
     (case own_slot of
        None \<Rightarrow> True
      | Some (Data v writable configurable) \<Rightarrow> configurable \<or> writable \<or> result = Member v
      | Some (Accessor getter configurable) \<Rightarrow>
          configurable \<or>
          (case getter of Some g \<Rightarrow> True | None \<Rightarrow> result = Member JUndefined))"

definition Proxy_get :: "proxy \<Rightarrow> propkey \<Rightarrow> jserr + got" where
  "Proxy_get px p =
     (case get_handler (traps px) of
        Some trap \<Rightarrow>
          (case trap (target px) p The_proxy of
             Inl thrown \<Rightarrow> Inl thrown
           | Inr result \<Rightarrow>
               if engine_accepts (map_of (own (target px)) p) result then Inr result
               else Inl invariant_violation)
      | None \<Rightarrow>
          (case Reflect_get (target px) p The_proxy of
             Inl e \<Rightarrow> Inl e
           | Inr v \<Rightarrow> Inr (Member v)))"

definition Proxy_has :: "proxy \<Rightarrow> propkey \<Rightarrow> bool" where
  "Proxy_has px p =
     (case has_handler (traps px) of
        Some trap \<Rightarrow> trap (target px) p
      | None \<Rightarrow> Reflect_has (target px) p)"

definition Proxy_ownKeys :: "proxy \<Rightarrow> propkey list" where
  "Proxy_ownKeys px =
     (case ownKeys_handler (traps px) of
        Some trap \<Rightarrow> trap (target px)
      | None \<Rightarrow> Reflect_ownKeys (target px))"

definition Proxy_set :: "proxy \<Rightarrow> propkey \<Rightarrow> jsval \<Rightarrow> proxy" where
  "Proxy_set px p v =
     px\<lparr>target := (case set_handler (traps px) of
                     Some trap \<Rightarrow> trap (target px) p v
                   | None \<Rightarrow> Reflect_set (target px) p v)\<rparr>"

definition Proxy_delete :: "proxy \<Rightarrow> propkey \<Rightarrow> proxy" where
  "Proxy_delete px p =
     px\<lparr>target := (case deleteProperty_handler (traps px) of
                     Some trap \<Rightarrow> trap (target px) p
                   | None \<Rightarrow> Reflect_deleteProperty (target px) p)\<rparr>"

section \<open>The synthesized remote call\<close>

text \<open>
  A template literal prints a missing (\<open>undefined\<close>) service name as \<open>undefined\<close>.
\<close>

fun template :: "string option \<Rightarrow> string" where
  "template None = ''undefined''"
| "template (Some s) = s"

text \<open>
  The codec \<open>msgpack\<close> is an outside library: \<open>serialize\<close> gives the bytes of a value,
  \<open>deserialize\<close> the value of some bytes or throws.
\<close>

record codec =
  serialize :: "jsval \<Rightarrow> jsval"
  deserialize :: "jsval \<Rightarrow> jserr + jsval"

text \<open>
  \<open>defaultTapInternal($http, serviceName, property, withMsgPack = false)\<close> returns the
  function \<open>defaultTrap\<close>; the flag defaults to \<open>false\<close> when it is \<open>undefined\<close>.
\<close>

definition defaultTapInternal :: "nat \<Rightarrow> string option \<Rightarrow> propkey \<Rightarrow> bool option \<Rightarrow> closure" where
  "defaultTapInternal http serviceName property withMsgPack =
     DefaultTrap http serviceName property (case withMsgPack of None \<Rightarrow> False | Some b \<Rightarrow> b)"

text \<open>
  \<open>defaultTrap\<close> of \<open>src/src/index.ts\<close>, called with \<open>arguments\<close>: the body is the
  array of the arguments, serialized when \<open>withMsgPack\<close> is set; a call with arguments
  posts it, a call without any gets the URL. The promise of the transport is returned as it
  is.
\<close>

definition defaultTrap ::
  "network \<Rightarrow> codec \<Rightarrow> string option \<Rightarrow> propkey \<Rightarrow> bool \<Rightarrow> jsval list \<Rightarrow> http
     \<Rightarrow> (jserr + response) \<times> http" where
  "defaultTrap net msgpack serviceName property withMsgPack arguments h =
     (let url = template serviceName @ ''/'' @ String_of property;
          isPost = (length arguments > 0);
          data = (if withMsgPack then serialize msgpack (JArr arguments) else JArr arguments)
      in if isPost then http_post net url data h else http_get net url h)"

text \<open>
  \<open>defaultTrap\<close> of the extended listing: the body is always the array of the arguments;
  when the promise is fulfilled and \<open>withMsgPack\<close> is set, the result is
  \<open>{ ...result, data }\<close> with \<open>data = msgpack.deserialize(result.data)\<close>. A rejection,
  and an error thrown while decoding, reject the returned promise.
\<close>

definition response_data :: "response \<Rightarrow> jsval" where
  "response_data result = (case prop_lookup result ''data'' of None \<Rightarrow> JUndefined | Some v \<Rightarrow> v)"

definition defaultTrap_ext ::
  "network \<Rightarrow> codec \<Rightarrow> string option \<Rightarrow> propkey \<Rightarrow> bool \<Rightarrow> jsval list \<Rightarrow> http
     \<Rightarrow> (jserr + response) \<times> http" where
  "defaultTrap_ext net msgpack serviceName property withMsgPack args h =
     (let url = template serviceName @ ''/'' @ String_of property;
          isPost = (length args > 0);
          (request, h') = (if isPost then http_post net url (JArr args) h else http_get net url h)
      in (case request of
            Inl rejection \<Rightarrow> Inl rejection
          | Inr result \<Rightarrow>
              if withMsgPack
              then (case deserialize msgpack (response_data result) of
                      Inl thrown \<Rightarrow> Inl thrown
                    | Inr data \<Rightarrow> Inr (AList.update ''data'' data (spread_into [] (JObj result))))
              else Inr result,
          h'))"

section \<open>The property-read trap and \<open>createService\<close>\<close>

text \<open>
  The \<open>get\<close> trap of \<open>src/src/index.ts\<close>. Two names are answered first. Otherwise
  \<open>Reflect.get\<close> runs inside \<open>try\<close>; the \<open>catch\<close> block rethrows nothing: after a
  \<open>TypeError\<close> it sets \<open>existing = null\<close>, after any other error \<open>existing\<close> (a
  \<open>var\<close>) is still \<open>undefined\<close>. The result is \<open>existing ?? defaultTapInternal(...)\<close>.
\<close>

definition coalesce :: "jsval \<Rightarrow> closure \<Rightarrow> got" where
  "coalesce existing fallback = (if nullish existing then Function fallback else Member existing)"

definition get_trap ::
  "nat \<Rightarrow> string option \<Rightarrow> bool option \<Rightarrow> jsobject \<Rightarrow> propkey \<Rightarrow> receiver \<Rightarrow> jserr + got" where
  "get_trap http serviceName withMsgPack tgt property reciever =
     (if property = PStr ''addHeaders'' then Inr (Function (AddHeaders http))
      else if property = PStr ''removeHeaders'' then Inr (Function (RemoveHeaders http))
      else
        (let existing =
               (case Reflect_get tgt property reciever of
                  Inr v \<Rightarrow> v
                | Inl err \<Rightarrow> (if instanceof_TypeError err then JNull else JUndefined))
         in Inr (coalesce existing (defaultTapInternal http serviceName property withMsgPack))))"

text \<open>
  The \<open>get\<close> trap of the extended listing: a \<open>switch\<close> over five names, and in the
  default case a \<open>catch\<close> that sets \<open>existing = null\<close> after any error.
\<close>

definition get_trap_ext ::
  "nat \<Rightarrow> string option \<Rightarrow> bool option \<Rightarrow> jsobject \<Rightarrow> propkey \<Rightarrow> receiver \<Rightarrow> jserr + got" where
  "get_trap_ext http serviceName withMsgPack tgt property reciever =
     (if property = PStr ''addHeaders'' then Inr (Function (AddHeaders http))
      else if property = PStr ''removeHeaders'' then Inr (Function (RemoveHeaders http))
      else if property = PStr ''addInterceptor'' then Inr (Function (AddInterceptor http))
      else if property = PStr ''removeInterceptor'' then Inr (Function (RemoveInterceptor http))
      else if property = PStr ''createRequest'' then Inr (Function (CreateRequest http))
      else
        (let existing =
               (case Reflect_get tgt property reciever of
                  Inr v \<Rightarrow> v
                | Inl err \<Rightarrow> JNull)
         in Inr (coalesce existing (defaultTapInternal http serviceName property withMsgPack))))"

text \<open>
  The configuration \<open>{ baseURL, serviceName, withMsgPack }\<close>; a field that is not given
  is \<open>None\<close> (the types require the first two, nothing at run time does).
\<close>

record RemotingConfigParam =
  baseURL :: "string option"
  serviceName :: "string option"
  withMsgPack :: "bool option"

fun optional_string :: "string option \<Rightarrow> jsval" where
  "optional_string None = JUndefined"
| "optional_string (Some s) = JStr s"

definition msgpack_headers :: "(string \<times> jsval) list" where
  "msgpack_headers =
     [(''Content-Type'', JStr ''application/msgpack''),
      (''Accept'', JStr ''application/json, application/msgpack'')]"

text \<open>
  \<open>x && obj\<close> inside a spread: the object when \<open>x\<close> is truthy, and otherwise a falsy
  value, which spreads to nothing.
\<close>

definition and_then :: "bool \<Rightarrow> (string \<times> jsval) list \<Rightarrow> jsval" where
  "and_then c obj = (if c then JObj obj else JBool False)"

fun optional_object :: "(string \<times> jsval) list option \<Rightarrow> jsval" where
  "optional_object None = JUndefined"
| "optional_object (Some obj) = JObj obj"

text \<open>The default parameter \<open>baseService: T = {} as T\<close>.\<close>

definition base_or_empty :: "jsobject option \<Rightarrow> jsobject" where
  "base_or_empty baseService = (case baseService of None \<Rightarrow> empty_object | Some b \<Rightarrow> b)"

definition only_get :: "(jsobject \<Rightarrow> propkey \<Rightarrow> receiver \<Rightarrow> jserr + got) \<Rightarrow> handler" where
  "only_get trap =
     \<lparr>get_handler = Some trap, has_handler = None, ownKeys_handler = None,
      set_handler = None, deleteProperty_handler = None\<rparr>"

text \<open>
  \<open>createService\<close> of \<open>src/src/index.ts\<close>: it creates the instance from
  \<open>{ baseURL, headers: { ...(withMsgPack && {...}) }, ...(axiosConfig && axiosConfig) }\<close>
  and returns a proxy around the base object whose handler has a \<open>get\<close> trap only, closed
  over the new instance. No statement of it throws or validates; its completion is written
  as a sum all the same, so that "it fails" is a statement about its result. The store it
  leaves, with the new instance at the reference \<open>created w\<close>, is returned beside the
  proxy.
\<close>

definition createService ::
  "RemotingConfigParam \<Rightarrow> (string \<times> jsval) list option \<Rightarrow> jsobject option \<Rightarrow> world
     \<Rightarrow> jserr + (proxy \<times> world)" where
  "createService config axiosConfig baseService w =
     (let is_msgpack = (withMsgPack config = Some True);
          (http, w') = axios_create
                   (spread_into
                      [(''baseURL'', optional_string (baseURL config)),
                       (''headers'', JObj (spread_into [] (and_then is_msgpack msgpack_headers)))]
                      (optional_object axiosConfig)) w;
          base = base_or_empty baseService
      in Inr (\<lparr>target = base,
                traps = only_get (get_trap http (serviceName config) (withMsgPack config))\<rparr>,
              w'))"

text \<open>
  \<open>createService\<close> of the extended listing: with msgpack it also sets
  \<open>responseType: 'arraybuffer'\<close>, and its trap is the extended one.
\<close>

definition createService_ext ::
  "RemotingConfigParam \<Rightarrow> (string \<times> jsval) list option \<Rightarrow> jsobject option \<Rightarrow> world
     \<Rightarrow> jserr + (proxy \<times> world)" where
  "createService_ext config axiosConfig baseService w =
     (let is_msgpack = (withMsgPack config = Some True);
          (http, w') = axios_create
                   (spread_into
                      (spread_into
                         [(''baseURL'', optional_string (baseURL config)),
                          (''headers'', JObj (spread_into [] (and_then is_msgpack msgpack_headers)))]
                         (and_then is_msgpack [(''responseType'', JStr ''arraybuffer'')]))
                      (optional_object axiosConfig)) w;
          base = base_or_empty baseService
      in Inr (\<lparr>target = base,
                traps = only_get (get_trap_ext http (serviceName config) (withMsgPack config))\<rparr>,
              w'))"

section \<open>Calling what a property read returned\<close>

text \<open>
  Calling a function of the library runs the function of the source it stands for on the
  instance it closes over. \<open>removeHeaders\<close> takes strings (\<open>...headers: string[]\<close>); a
  call with other arguments is outside the declared type and has no meaning here
  (\<open>None\<close>), and so has a call of a function that the listing never makes. A promise is
  given by its settlement, the response as an object.
\<close>

fun string_args :: "jsval list \<Rightarrow> string list option" where
  "string_args [] = Some []"
| "string_args (JStr s # rest) = map_option ((#) s) (string_args rest)"
| "string_args (other # rest) = None"

definition settled :: "(jserr + response) \<times> 'w \<Rightarrow> (jserr + jsval) \<times> 'w" where
  "settled out = (case out of (Inl rejection, w) \<Rightarrow> (Inl rejection, w) | (Inr result, w) \<Rightarrow> (Inr (JObj result), w))"

definition call_function ::
  "network \<Rightarrow> codec \<Rightarrow> closure \<Rightarrow> jsval list \<Rightarrow> world \<Rightarrow> ((jserr + jsval) \<times> world) option" where
  "call_function net msgpack f args w =
     (case f of
        AddHeaders http \<Rightarrow> Some (on_instance http (addHeaders args) w)
      | RemoveHeaders http \<Rightarrow>
          (case string_args args of
             None \<Rightarrow> None
           | Some names \<Rightarrow> Some (on_instance http (removeHeaders names) w))
      | DefaultTrap http sname property flag \<Rightarrow>
          Some (settled (on_instance http (defaultTrap net msgpack sname property flag args) w))
      | _ \<Rightarrow> None)"

definition call_function_ext ::
  "network \<Rightarrow> codec \<Rightarrow> closure \<Rightarrow> jsval list \<Rightarrow> world \<Rightarrow> ((jserr + jsval) \<times> world) option" where
  "call_function_ext net msgpack f args w =
     (case f of
        AddHeaders http \<Rightarrow> Some (on_instance http (addHeaders_ext args) w)
      | RemoveHeaders http \<Rightarrow>
          (case string_args args of
             None \<Rightarrow> None
           | Some names \<Rightarrow> Some (on_instance http (removeHeaders_ext names) w))
      | AddInterceptor http \<Rightarrow> Some (on_instance http (addInterceptor_ext args) w)
      | RemoveInterceptor http \<Rightarrow> Some (on_instance http (removeInterceptor_ext args) w)
      | CreateRequest http \<Rightarrow> Some (settled (on_instance http (createRequest_ext net args) w))
      | DefaultTrap http sname property flag \<Rightarrow>
          Some (settled (on_instance http (defaultTrap_ext net msgpack sname property flag args) w)))"

text \<open>
  \<open>call_synthesized\<close> calls the result of a property read when it is the function
  \<open>defaultTrap\<close> that \<open>defaultTapInternal\<close> made, with the variables it closed over, and
  is \<open>None\<close> for any other result: a member of the base object or a management function is
  not a synthesized remote call. \<open>remote_call\<close> is \<open>proxy[property](...args)\<close> read
  that way, in the store as it is at the time of the call; a read that throws calls nothing.
\<close>

definition call_synthesized ::
  "network \<Rightarrow> codec \<Rightarrow> got \<Rightarrow> jsval list \<Rightarrow> world \<Rightarrow> ((jserr + response) \<times> world) option" where
  "call_synthesized net msgpack g args w =
     (case g of
        Function (DefaultTrap http sname property flag) \<Rightarrow>
          Some (on_instance http (defaultTrap net msgpack sname property flag args) w)
      | _ \<Rightarrow> None)"

definition call_synthesized_ext ::
  "network \<Rightarrow> codec \<Rightarrow> got \<Rightarrow> jsval list \<Rightarrow> world \<Rightarrow> ((jserr + response) \<times> world) option" where
  "call_synthesized_ext net msgpack g args w =
     (case g of
        Function (DefaultTrap http sname property flag) \<Rightarrow>
          Some (on_instance http (defaultTrap_ext net msgpack sname property flag args) w)
      | _ \<Rightarrow> None)"

definition remote_call ::
  "network \<Rightarrow> codec \<Rightarrow> proxy \<Rightarrow> propkey \<Rightarrow> jsval list \<Rightarrow> world
     \<Rightarrow> ((jserr + response) \<times> world) option" where
  "remote_call net msgpack px property args w =
     (case Proxy_get px property of
        Inl thrown \<Rightarrow> None
      | Inr g \<Rightarrow> call_synthesized net msgpack g args w)"

definition remote_call_ext ::
  "network \<Rightarrow> codec \<Rightarrow> proxy \<Rightarrow> propkey \<Rightarrow> jsval list \<Rightarrow> world
     \<Rightarrow> ((jserr + response) \<times> world) option" where
  "remote_call_ext net msgpack px property args w =
     (case Proxy_get px property of
        Inl thrown \<Rightarrow> None
      | Inr g \<Rightarrow> call_synthesized_ext net msgpack g args w)"

section \<open>Vocabulary of the properties\<close>

text \<open>The five control names, and what "a non-null object" means for a value.\<close>

definition control_names :: "propkey list" where
  "control_names =
     [PStr ''addHeaders'', PStr ''removeHeaders'', PStr ''addInterceptor'',
      PStr ''removeInterceptor'', PStr ''createRequest'']"

definition is_object :: "jsval \<Rightarrow> bool" where
  "is_object v = (typeof v = ''object'' \<and> v \<noteq> JNull)"

text \<open>
  Steps 2 and 3 of the member resolution as the specification words them: the base
  object's member when the read gives one that is not \<open>null\<close>/\<open>undefined\<close>, and the
  synthesized remote-call function for that name otherwise (also when the read throws).
  The read is the trap's, with the proxy as receiver.
\<close>

definition spec_member_or_synthesized ::
  "nat \<Rightarrow> string option \<Rightarrow> bool option \<Rightarrow> jsobject \<Rightarrow> propkey \<Rightarrow> got" where
  "spec_member_or_synthesized http sname flag base property =
     (case Reflect_get base property The_proxy of
        Inr v \<Rightarrow> if nullish v then Function (defaultTapInternal http sname property flag) else Member v
      | Inl thrown \<Rightarrow> Function (defaultTapInternal http sname property flag))"

text \<open>
  The management function the specification assigns to each control name, closed over an
  instance.
\<close>

definition control_function :: "propkey \<Rightarrow> nat \<Rightarrow> closure option" where
  "control_function name http =
     (if name = PStr ''addHeaders'' then Some (AddHeaders http)
      else if name = PStr ''removeHeaders'' then Some (RemoveHeaders http)
      else if name = PStr ''addInterceptor'' then Some (AddInterceptor http)
      else if name = PStr ''removeInterceptor'' then Some (RemoveInterceptor http)
      else if name = PStr ''createRequest'' then Some (CreateRequest http)
      else None)"

text \<open>
  A name is pinned on an object when the object has it as an own property that is not
  configurable and is a data property that is not writable or an accessor without getter:
  the properties for which the engine holds a \<open>get\<close> trap to one answer. Every data
  property of a frozen object is pinned.
\<close>

definition pinned :: "jsobject \<Rightarrow> propkey \<Rightarrow> bool" where
  "pinned obj p =
     (case map_of (own obj) p of
        None \<Rightarrow> False
      | Some (Data v writable configurable) \<Rightarrow> \<not> configurable \<and> \<not> writable
      | Some (Accessor getter configurable) \<Rightarrow>
          \<not> configurable \<and> (case getter of None \<Rightarrow> True | Some g \<Rightarrow> False))"


text \<open>
  A call ran the function \<open>f\<close> of the source on the instance \<open>http\<close>: its outcome and
  the instance afterwards are those of \<open>f\<close> on the instance before, no instance was made
  and every other instance is as it was.
\<close>

definition runs_on ::
  "('a \<times> world) option \<Rightarrow> nat \<Rightarrow> (http \<Rightarrow> 'a \<times> http) \<Rightarrow> world \<Rightarrow> bool" where
  "runs_on out http f w =
     (case out of
        None \<Rightarrow> False
      | Some (outcome, w') \<Rightarrow>
          (outcome, instance_of w' http) = f (instance_of w http) \<and>
          created w' = created w \<and>
          (\<forall>other. other \<noteq> http \<longrightarrow> instance_of w' other = instance_of w other))"

section \<open>Sample data: the transport and the payload of the test suite\<close>

text \<open>
  The tests replace axios by a mock whose \<open>get\<close> and \<open>post\<close> resolve to an object with
  the URL (\<open>opts.baseURL + path\<close>), the bytes of the packed \<open>{hello: "world"}\<close> as
  \<open>data\<close>, the posted body as \<open>postData\<close> and a copy of the default headers, and
  whose \<open>request\<close> resolves to the configuration it was given as \<open>data\<close>.
\<close>

definition hello_world :: jsval where
  "hello_world = JObj [(''hello'', JStr ''world'')]"

definition hello_world_packed :: jsval where
  "hello_world_packed =
     JArr (map JNum [129, 165, 104, 101, 108, 108, 111, 165, 119, 111, 114, 108, 100])"

definition mock_baseURL :: "http \<Rightarrow> string" where
  "mock_baseURL h =
     (case prop_lookup (create_config h) ''baseURL'' of
        Some (JStr b) \<Rightarrow> b
      | _ \<Rightarrow> ''undefined'')"

fun mock_axios :: network where
  "mock_axios h (GET path) =
     Inr [(''url'', JStr (mock_baseURL h @ path)),
          (''data'', hello_world_packed),
          (''headers'', JObj (defaults_headers h))]"
| "mock_axios h (POST path body) =
     Inr [(''url'', JStr (mock_baseURL h @ path)),
          (''data'', hello_world_packed),
          (''postData'', body),
          (''headers'', JObj (defaults_headers h))]"
| "mock_axios h (REQUEST opts) = Inr [(''data'', opts)]"

text \<open>
  A codec that knows the payload of the tests: it packs the one-element argument array
  \<open>[{hello: "world"}]\<close>, unpacks the mock's \<open>data\<close>, and rejects other bytes.
\<close>

definition sample_codec :: codec where
  "sample_codec =
     \<lparr>serialize = (\<lambda>v. if v = JArr [hello_world]
                         then JBytes [145, 129, 165, 104, 101, 108, 108, 111, 165, 119, 111, 114, 108, 100]
                         else JBytes [192]),
      deserialize = (\<lambda>b. if b = hello_world_packed then Inr hello_world
                           else Inl (OtherError ''malformed input''))\<rparr>"

text \<open>The \<open>existingservice\<close> of the tests: a string property and two methods.\<close>

definition existingservice :: jsobject where
  "existingservice =
     \<lparr>own = [(PStr ''someProperty'', plain (JStr ''IExist'')),
             (PStr ''getSample'', plain (JFunction ''getSample'')),
             (PStr ''postSample'', plain (JFunction ''postSample''))],
      inherited = Object_prototype,
      extensible = True\<rparr>"

text \<open>A base object whose getters throw: one an ordinary error, one a \<open>TypeError\<close>.\<close>

definition throwing_service :: jsobject where
  "throwing_service =
     \<lparr>own = [(PStr ''broken'', Accessor (Some (\<lambda>this. Inl (OtherError ''boom''))) True),
             (PStr ''strict'', Accessor (Some (\<lambda>this. Inl (TypeError ''no receiver''))) True)],
      inherited = Object_prototype,
      extensible = True\<rparr>"

text \<open>
  \<open>{ y: null, get x() { return this.y === null ? 'none' : 'some' }, get secret() {...} }\<close>,
  where \<open>secret\<close> reads a private field. On the object itself \<open>x\<close> is \<open>'none'\<close> and
  \<open>secret\<close> is 42. With \<open>this\<close> the proxy, \<open>this.y\<close> is a trapped read, which turns
  the \<open>null\<close> into the synthesized function, so \<open>x\<close> is \<open>'some'\<close>; and the proxy has
  no private field, so \<open>secret\<close> throws a \<open>TypeError\<close>.
\<close>

definition this_dependent_service :: jsobject where
  "this_dependent_service =
     \<lparr>own = [(PStr ''y'', plain JNull),
             (PStr ''x'', Accessor (Some (\<lambda>this. case this of
                                             The_base \<Rightarrow> Inr (JStr ''none'')
                                           | The_proxy \<Rightarrow> Inr (JStr ''some''))) True),
             (PStr ''secret'', Accessor (Some (\<lambda>this. case this of
                                             The_base \<Rightarrow> Inr (JNum 42)
                                           | The_proxy \<Rightarrow> Inl (TypeError ''no private member''))) True)],
      inherited = Object_prototype,
      extensible = True\<rparr>"

text \<open>\<open>Object.freeze({ addHeaders: 1, nul: null, someProperty: 'IExist' })\<close>.\<close>

definition frozen_service :: jsobject where
  "frozen_service =
     \<lparr>own = [(PStr ''addHeaders'', frozen (JNum 1)),
             (PStr ''nul'', frozen JNull),
             (PStr ''someProperty'', frozen (JStr ''IExist''))],
      inherited = Object_prototype,
      extensible = False\<rparr>"

definition IMyService_config :: "bool option \<Rightarrow> RemotingConfigParam" where
  "IMyService_config flag =
     \<lparr>baseURL = Some ''http://localhost/'', serviceName = Some ''IMyService'',
      withMsgPack = flag\<rparr>"

text \<open>A store in which no instance has been made yet.\<close>

definition no_instances :: world where
  "no_instances = \<lparr>created = 0, instance_of = (\<lambda>http. new_instance [])\<rparr>"

section \<open>Facts about plain objects\<close>

lemma distinct_fold_update:
  "distinct (map fst acc) \<Longrightarrow>
   distinct (map fst (fold (\<lambda>(k, x). AList.update k x) ps acc))"
  by (induction ps arbitrary: acc) (auto simp: distinct_update)

lemma map_of_fold_update:
  "map_of (fold (\<lambda>(k, x). AList.update k x) ps acc) = map_of acc ++ map_of (rev ps)"
proof (induction ps arbitrary: acc)
  case Nil
  show ?case by simp
next
  case (Cons p ps)
  obtain k x where p: "p = (k, x)" by (cases p)
  have "map_of (fold (\<lambda>(k, x). AList.update k x) (p # ps) acc)
        = map_of (AList.update k x acc) ++ map_of (rev ps)"
    using Cons.IH [of "AList.update k x acc"] p by simp
  also have "\<dots> = (map_of acc)(k \<mapsto> x) ++ map_of (rev ps)"
    by (simp add: update_conv')
  also have "\<dots> = map_of acc ++ map_of (rev (p # ps))"
    by (simp add: p map_add_upd_left fun_eq_iff map_add_def split: option.splits)
  finally show ?case .
qed

lemma distinct_map_of_rev_eq:
  "distinct (map fst ps) \<Longrightarrow> map_of (rev ps) = map_of ps"
proof (induction ps)
  case Nil
  show ?case by simp
next
  case (Cons p ps)
  obtain k x where p: "p = (k, x)" by (cases p)
  from Cons.prems p have notin: "map_of ps k = None" and d: "distinct (map fst ps)"
    by (auto simp: map_of_eq_None_iff)
  have "map_of (rev (p # ps)) = [k \<mapsto> x] ++ map_of ps"
    using Cons.IH [OF d] p by simp
  also have "\<dots> = map_of (p # ps)"
    using notin
    by (auto simp: p fun_eq_iff map_add_def split: option.splits)
  finally show ?case .
qed

lemma distinct_spread_into:
  "distinct (map fst acc) \<Longrightarrow> distinct (map fst (spread_into acc v))"
  unfolding spread_into_def by (rule distinct_fold_update)

lemma prop_lookup_spread_into:
  assumes "distinct (map fst acc)"
  shows "prop_lookup (spread_into acc v) k =
           (case prop_lookup (own_enumerable v) k of
              Some x \<Rightarrow> Some x
            | None \<Rightarrow> prop_lookup acc k)"
proof -
  have d: "distinct (map fst (spread_into acc v))"
    using assms by (rule distinct_spread_into)
  have "prop_lookup (spread_into acc v) k = map_of (spread_into acc v) k"
    unfolding prop_lookup_def using distinct_map_of_rev_eq [OF d] by simp
  also have "\<dots> = (map_of acc ++ map_of (rev (own_enumerable v))) k"
    unfolding spread_into_def by (simp add: map_of_fold_update)
  also have "\<dots> = (case prop_lookup (own_enumerable v) k of
                      Some x \<Rightarrow> Some x | None \<Rightarrow> prop_lookup acc k)"
    unfolding prop_lookup_def using distinct_map_of_rev_eq [OF assms]
    by (simp add: map_add_def split: option.splits)
  finally show ?thesis .
qed

lemma prop_lookup_object_literal:
  "prop_lookup (spread_into (spread_into [] (JObj old)) v) k =
     (case prop_lookup (own_enumerable v) k of
        Some x \<Rightarrow> Some x
      | None \<Rightarrow> prop_lookup old k)"
proof -
  have d: "distinct (map fst (spread_into [] (JObj old)))"
    by (rule distinct_spread_into) simp
  have e: "prop_lookup [] k = None"
    by (simp add: prop_lookup_def)
  have old: "prop_lookup (spread_into [] (JObj old)) k = prop_lookup old k"
    using prop_lookup_spread_into [of "[]" "JObj old" k] e
    by (simp split: option.splits)
  show ?thesis
    using prop_lookup_spread_into [OF d, of v k] old by (simp split: option.splits)
qed

lemma prop_lookup_delete:
  "prop_lookup (AList.delete name hs) k = (if k = name then None else prop_lookup hs k)"
proof -
  have "rev (AList.delete name hs) = AList.delete name (rev hs)"
    by (simp add: AList.delete_eq rev_filter)
  then show ?thesis
    by (simp add: prop_lookup_def delete_conv')
qed

lemma prop_lookup_delete_each:
  "prop_lookup (delete_each names hs) k = (if k \<in> set names then None else prop_lookup hs k)"
  by (induction names arbitrary: hs) (auto simp: prop_lookup_delete)

section \<open>Header management: properties\<close>

lemma is_object_not_falsy: "is_object v \<Longrightarrow> \<not> js_not v"
  by (cases v) (auto simp: is_object_def)

lemma not_object_throws: "\<not> is_object v \<Longrightarrow> js_not v \<or> typeof v \<noteq> ''object''"
  by (cases v) (auto simp: is_object_def)

text \<open>
  C7. \<open>addHeaders\<close>, in both listings. Called with a non-null object (whatever follows
  it in the argument list) it returns normally and leaves the transport's default headers
  such that every key of the argument maps to the argument's value and every other key
  keeps the value it had; the configuration and the requests sent are untouched. Called
  with a first argument that is not a non-null object, or with no argument, it throws a
  \<open>TypeError\<close> and the instance is as it was.
\<close>

theorem addHeaders_merges_or_throws:
  "(is_object headers \<longrightarrow>
      fst (addHeaders (headers # rest) h) = Inr JUndefined \<and>
      fst (addHeaders_ext (headers # rest) h) = Inr JUndefined \<and>
      snd (addHeaders_ext (headers # rest) h) = snd (addHeaders (headers # rest) h) \<and>
      sent (snd (addHeaders (headers # rest) h)) = sent h \<and>
      create_config (snd (addHeaders (headers # rest) h)) = create_config h \<and>
      (\<forall>k. prop_lookup (defaults_headers (snd (addHeaders (headers # rest) h))) k =
             (case prop_lookup (own_enumerable headers) k of
                Some v \<Rightarrow> Some v
              | None \<Rightarrow> prop_lookup (defaults_headers h) k))) \<and>
   (\<not> is_object headers \<longrightarrow>
      (\<exists>msg. addHeaders (headers # rest) h = (Inl (TypeError msg), h)) \<and>
      (\<exists>msg. addHeaders_ext (headers # rest) h = (Inl (TypeError msg), h))) \<and>
   (\<exists>msg. addHeaders [] h = (Inl (TypeError msg), h)) \<and>
   (\<exists>msg. addHeaders_ext [] h = (Inl (TypeError msg), h))"
proof (intro conjI impI)
  assume obj: "is_object headers"
  then have ok: "\<not> (js_not headers \<or> typeof headers \<noteq> ''object'')"
    using is_object_not_falsy by (auto simp: is_object_def)
  show "fst (addHeaders (headers # rest) h) = Inr JUndefined"
    using ok by (simp add: addHeaders_def)
  show "fst (addHeaders_ext (headers # rest) h) = Inr JUndefined"
    using ok by (simp add: addHeaders_ext_def)
  show "snd (addHeaders_ext (headers # rest) h) = snd (addHeaders (headers # rest) h)"
    using ok by (simp add: addHeaders_def addHeaders_ext_def)
  show "sent (snd (addHeaders (headers # rest) h)) = sent h"
    using ok by (simp add: addHeaders_def)
  show "create_config (snd (addHeaders (headers # rest) h)) = create_config h"
    using ok by (simp add: addHeaders_def)
  show "\<forall>k. prop_lookup (defaults_headers (snd (addHeaders (headers # rest) h))) k =
             (case prop_lookup (own_enumerable headers) k of
                Some v \<Rightarrow> Some v
              | None \<Rightarrow> prop_lookup (defaults_headers h) k)"
    using ok by (simp add: addHeaders_def prop_lookup_object_literal)
next
  assume "\<not> is_object headers"
  then have bad: "js_not headers \<or> typeof headers \<noteq> ''object''"
    by (rule not_object_throws)
  show "\<exists>msg. addHeaders (headers # rest) h = (Inl (TypeError msg), h)"
    using bad by (auto simp: addHeaders_def)
  show "\<exists>msg. addHeaders_ext (headers # rest) h = (Inl (TypeError msg), h)"
    using bad by (auto simp: addHeaders_ext_def)
next
  show "\<exists>msg. addHeaders [] h = (Inl (TypeError msg), h)"
    by (simp add: addHeaders_def)
  show "\<exists>msg. addHeaders_ext [] h = (Inl (TypeError msg), h)"
    by (simp add: addHeaders_ext_def)
qed

text \<open>
  The statement at the header of the test suite: adding \<open>x-custom-header\<close> overwrites the
  old value and keeps \<open>Accept\<close>; a string argument throws and changes nothing.
\<close>

theorem addHeaders_merges_or_throws_witness:
  "is_object (JObj [(''x-custom-header'', JStr ''true'')]) \<and>
   prop_lookup (defaults_headers (snd (addHeaders [JObj [(''x-custom-header'', JStr ''true'')]]
       \<lparr>create_config = [],
        defaults_headers = [(''Accept'', JStr ''application/json''), (''x-custom-header'', JStr ''false'')],
        request_handlers = [], response_handlers = [], sent = []\<rparr>))) ''x-custom-header'' = Some (JStr ''true'') \<and>
   prop_lookup (defaults_headers (snd (addHeaders [JObj [(''x-custom-header'', JStr ''true'')]]
       \<lparr>create_config = [],
        defaults_headers = [(''Accept'', JStr ''application/json''), (''x-custom-header'', JStr ''false'')],
        request_handlers = [], response_handlers = [], sent = []\<rparr>))) ''Accept'' = Some (JStr ''application/json'') \<and>
   \<not> is_object (JStr ''x-custom-header'') \<and>
   (\<exists>msg. addHeaders [JStr ''x-custom-header'']
       \<lparr>create_config = [], defaults_headers = [(''Accept'', JStr ''application/json'')],
        request_handlers = [], response_handlers = [], sent = []\<rparr>
     = (Inl (TypeError msg),
        \<lparr>create_config = [], defaults_headers = [(''Accept'', JStr ''application/json'')],
         request_handlers = [], response_handlers = [], sent = []\<rparr>))"
proof -
  have o: "is_object (JObj [(''x-custom-header'', JStr ''true'')])"
    by (simp add: is_object_def)
  have n: "\<not> is_object (JStr ''x-custom-header'')"
    by (simp add: is_object_def)
  show ?thesis
    using o n
      addHeaders_merges_or_throws [of "JObj [(''x-custom-header'', JStr ''true'')]" "[]"
        "\<lparr>create_config = [],
         defaults_headers = [(''Accept'', JStr ''application/json''), (''x-custom-header'', JStr ''false'')],
         request_handlers = [], response_handlers = [], sent = []\<rparr>"]
      addHeaders_merges_or_throws [of "JStr ''x-custom-header''" "[]"
        "\<lparr>create_config = [], defaults_headers = [(''Accept'', JStr ''application/json'')],
          request_handlers = [], response_handlers = [], sent = []\<rparr>"]
    by (simp add: prop_lookup_def)
qed

lemma removeHeaders_deletes:
  "names \<noteq> [] \<Longrightarrow>
     fst (removeHeaders names h) = Inr JUndefined \<and>
     sent (snd (removeHeaders names h)) = sent h \<and>
     create_config (snd (removeHeaders names h)) = create_config h \<and>
     prop_lookup (defaults_headers (snd (removeHeaders names h))) k =
       (if k \<in> set names then None else prop_lookup (defaults_headers h) k)"
  by (simp add: removeHeaders_def prop_lookup_delete_each)

lemma removeHeaders_ext_deletes:
  "fst (removeHeaders_ext names h) = Inr JUndefined \<and>
   sent (snd (removeHeaders_ext names h)) = sent h \<and>
   create_config (snd (removeHeaders_ext names h)) = create_config h \<and>
   prop_lookup (defaults_headers (snd (removeHeaders_ext names h))) k =
     (if k \<in> set names then None else prop_lookup (defaults_headers h) k)"
  by (simp add: removeHeaders_ext_def prop_lookup_delete_each)

text \<open>
  C8. \<open>removeHeaders\<close> called with no name. In \<open>src/src/index.ts\<close> it throws the
  \<open>TypeError\<close> and leaves the instance as it was. In the extended listing the guard
  \<open>!headers\<close> tests the rest-parameter array, which is never falsy: the call returns
  normally (and, the loop being empty, changes nothing). With names, both listings delete
  exactly the named keys (\<open>removeHeaders_deletes\<close>, \<open>removeHeaders_ext_deletes\<close>).
\<close>

theorem removeHeaders_without_names:
  "removeHeaders [] h = (Inl (TypeError ''This function should have at least 1 parameter''), h) \<and>
   removeHeaders_ext [] h = (Inr JUndefined, h)"
  by (simp add: removeHeaders_def removeHeaders_ext_def)

section \<open>Property reads on the proxy\<close>

lemma createService_result:
  "\<exists>px w'. createService cfg ac bs w = Inr (px, w') \<and>
     traps px = only_get (get_trap (created w) (serviceName cfg) (withMsgPack cfg)) \<and>
     target px = base_or_empty bs \<and>
     sent (instance_of w' (created w)) = [] \<and>
     instance_of w' = (instance_of w)(created w := instance_of w' (created w))"
  by (simp add: createService_def Let_def axios_create_def new_instance_def)

lemma createService_ext_result:
  "\<exists>px w'. createService_ext cfg ac bs w = Inr (px, w') \<and>
     traps px = only_get (get_trap_ext (created w) (serviceName cfg) (withMsgPack cfg)) \<and>
     target px = base_or_empty bs \<and>
     sent (instance_of w' (created w)) = [] \<and>
     instance_of w' = (instance_of w)(created w := instance_of w' (created w))"
  by (simp add: createService_ext_def Let_def axios_create_def new_instance_def)

lemma Proxy_get_only_get:
  "traps px = only_get trap \<Longrightarrow>
   Proxy_get px p =
     (case trap (target px) p The_proxy of
        Inl thrown \<Rightarrow> Inl thrown
      | Inr result \<Rightarrow>
          if engine_accepts (map_of (own (target px)) p) result then Inr result
          else Inl invariant_violation)"
  by (simp add: Proxy_get_def only_get_def)

lemma engine_accepts_unpinned: "\<not> pinned obj p \<Longrightarrow> engine_accepts (map_of (own obj) p) result"
  by (auto simp: pinned_def engine_accepts_def split: option.splits slot.splits)

lemma engine_accepts_own_value:
  "Reflect_get obj p this = Inr v \<Longrightarrow> engine_accepts (map_of (own obj) p) (Member v)"
  by (auto simp: engine_accepts_def Reflect_get_def find_slot_def split: option.splits slot.splits)

lemma engine_rejects_function:
  "pinned obj p \<Longrightarrow> \<not> engine_accepts (map_of (own obj) p) (Function f)"
  by (auto simp: pinned_def engine_accepts_def split: option.splits slot.splits)

lemma absent_not_own: "\<not> Reflect_has obj p \<Longrightarrow> map_of (own obj) p = None"
  by (simp add: Reflect_has_def find_slot_def split: option.splits)

lemma Reflect_get_absent: "\<not> Reflect_has t p \<Longrightarrow> Reflect_get t p this = Inr JUndefined"
  by (simp add: Reflect_has_def Reflect_get_def)

lemma Reflect_get_data: "find_slot t p = Some (Data d wr cf) \<Longrightarrow> Reflect_get t p this = Inr d"
  by (simp add: Reflect_get_def)

lemma not_control_name:
  "p \<notin> set control_names \<Longrightarrow>
     p \<noteq> PStr ''addHeaders'' \<and> p \<noteq> PStr ''removeHeaders'' \<and> p \<noteq> PStr ''addInterceptor'' \<and>
     p \<noteq> PStr ''removeInterceptor'' \<and> p \<noteq> PStr ''createRequest''"
  by (simp add: control_names_def)

lemma get_trap_ordinary:
  "p \<notin> set control_names \<Longrightarrow>
     get_trap r s f t p The_proxy = Inr (spec_member_or_synthesized r s f t p)"
  by (drule not_control_name)
     (simp add: get_trap_def coalesce_def spec_member_or_synthesized_def split: sum.splits)

lemma get_trap_ext_ordinary:
  "p \<notin> set control_names \<Longrightarrow>
     get_trap_ext r s f t p The_proxy = Inr (spec_member_or_synthesized r s f t p)"
  by (drule not_control_name)
     (simp add: get_trap_ext_def coalesce_def spec_member_or_synthesized_def split: sum.splits)

lemma get_trap_returns: "\<exists>g. get_trap r s f t p this = Inr g"
  by (simp add: get_trap_def Let_def)

lemma get_trap_ext_returns: "\<exists>g. get_trap_ext r s f t p this = Inr g"
  by (simp add: get_trap_ext_def Let_def)

text \<open>
  An ordinary name read through a proxy whose handler is one of the two traps: the member
  when the trap's read gives one, the synthesized function when the name is absent or its
  getter throws.
\<close>

lemma read_member:
  assumes tr: "traps px = only_get trap"
    and ord: "trap (target px) p The_proxy = Inr (spec_member_or_synthesized r s f (target px) p)"
    and got: "Reflect_get (target px) p The_proxy = Inr v" and v: "\<not> nullish v"
  shows "Proxy_get px p = Inr (Member v)"
  using got v engine_accepts_own_value [OF got]
  by (simp add: Proxy_get_only_get [OF tr] ord spec_member_or_synthesized_def)

lemma read_absent:
  assumes tr: "traps px = only_get trap"
    and ord: "trap (target px) p The_proxy = Inr (spec_member_or_synthesized r s f (target px) p)"
    and absent: "\<not> Reflect_has (target px) p"
  shows "Proxy_get px p = Inr (Function (defaultTapInternal r s p f))"
  using Reflect_get_absent [OF absent] absent_not_own [OF absent]
  by (simp add: Proxy_get_only_get [OF tr] ord spec_member_or_synthesized_def engine_accepts_def)

lemma read_thrown:
  assumes tr: "traps px = only_get trap"
    and ord: "trap (target px) p The_proxy = Inr (spec_member_or_synthesized r s f (target px) p)"
    and thrown: "Reflect_get (target px) p The_proxy = Inl e"
  shows "Proxy_get px p = Inr (Function (defaultTapInternal r s p f))"
proof -
  have "\<not> pinned (target px) p"
    using thrown
    by (auto simp: pinned_def Reflect_get_def find_slot_def split: option.splits slot.splits)
  from engine_accepts_unpinned [OF this] thrown show ?thesis
    by (simp add: Proxy_get_only_get [OF tr] ord spec_member_or_synthesized_def)
qed

lemmas run_defs =
  createService_def createService_ext_def IMyService_config_def axios_create_def new_instance_def
  no_instances_def on_instance_def
  base_or_empty_def empty_object_def Object_prototype_def plain_def frozen_def
  remote_call_def remote_call_ext_def
  Proxy_get_def engine_accepts_def invariant_violation_def
  only_get_def get_trap_def get_trap_ext_def Reflect_get_def find_slot_def
  coalesce_def defaultTapInternal_def call_synthesized_def call_synthesized_ext_def
  defaultTrap_def defaultTrap_ext_def http_get_def http_post_def Let_def

text \<open>
  C4, as stated, fails for a member whose getter depends on \<open>this\<close>. The base object
  holds \<open>x\<close> with the value \<open>'none'\<close> and \<open>secret\<close> with the value 42, both
  neither \<open>null\<close> nor \<open>undefined\<close>; read on the proxy, \<open>x\<close> is \<open>'some'\<close> and
  \<open>secret\<close> is the synthesized remote call, because the trap runs the getter with the
  proxy as \<open>this\<close>.
\<close>

theorem getter_sees_the_proxy_as_this:
  "Reflect_get this_dependent_service (PStr ''x'') The_base = Inr (JStr ''none'') \<and>
   Reflect_get this_dependent_service (PStr ''secret'') The_base = Inr (JNum 42) \<and>
   (case createService (IMyService_config None) None (Some this_dependent_service) no_instances of
      Inl thrown \<Rightarrow> False
    | Inr (px, w) \<Rightarrow>
        Proxy_get px (PStr ''x'') = Inr (Member (JStr ''some'')) \<and>
        Proxy_get px (PStr ''secret'') =
          Inr (Function (DefaultTrap 0 (Some ''IMyService'') (PStr ''secret'') False))) \<and>
   (case createService_ext (IMyService_config None) None (Some this_dependent_service) no_instances of
      Inl thrown \<Rightarrow> False
    | Inr (px, w) \<Rightarrow>
        Proxy_get px (PStr ''x'') = Inr (Member (JStr ''some'')) \<and>
        Proxy_get px (PStr ''secret'') =
          Inr (Function (DefaultTrap 0 (Some ''IMyService'') (PStr ''secret'') False)))"
  by (simp add: run_defs this_dependent_service_def)

text \<open>
  C4, amended. Let \<open>property\<close> be none of the five control names, in either listing. If
  reading it on the base object with the proxy as \<open>this\<close>, as the trap does, gives a
  value that is not \<open>null\<close>/\<open>undefined\<close>, reading it on the proxy gives that value
  itself, not a function of the library; for a data property that is the value the base
  object holds. If the base object has no such property, the read returns (it does not
  throw) the synthesized remote-call function for that name. The trap resolves against the
  base object as it is at the time of the read: \<open>px\<lparr>target := t\<rparr>\<close> is the same proxy
  when its base object has come to be \<open>t\<close>, and the same facts hold there, whatever
  earlier reads returned.
\<close>

theorem base_member_precedence:
  assumes p: "property \<notin> set control_names"
  shows "(case createService cfg ac bs w of
            Inl thrown \<Rightarrow> False
          | Inr (px, w') \<Rightarrow>
              (Reflect_get (base_or_empty bs) property The_proxy = Inr v \<and> \<not> nullish v \<longrightarrow>
                 Proxy_get px property = Inr (Member v)) \<and>
              (find_slot (base_or_empty bs) property = Some (Data d writable configurable) \<and>
               \<not> nullish d \<longrightarrow>
                 Reflect_get (base_or_empty bs) property The_base = Inr d \<and>
                 Proxy_get px property = Inr (Member d)) \<and>
              (\<not> Reflect_has (base_or_empty bs) property \<longrightarrow>
                 Proxy_get px property =
                   Inr (Function (defaultTapInternal (created w) (serviceName cfg) property
                                    (withMsgPack cfg)))) \<and>
              (Reflect_get t property The_proxy = Inr v' \<and> \<not> nullish v' \<longrightarrow>
                 Proxy_get (px\<lparr>target := t\<rparr>) property = Inr (Member v')) \<and>
              (\<not> Reflect_has t property \<longrightarrow>
                 Proxy_get (px\<lparr>target := t\<rparr>) property =
                   Inr (Function (defaultTapInternal (created w) (serviceName cfg) property
                                    (withMsgPack cfg))))) \<and>
         (case createService_ext cfg ac bs w of
            Inl thrown \<Rightarrow> False
          | Inr (px, w') \<Rightarrow>
              (Reflect_get (base_or_empty bs) property The_proxy = Inr v \<and> \<not> nullish v \<longrightarrow>
                 Proxy_get px property = Inr (Member v)) \<and>
              (find_slot (base_or_empty bs) property = Some (Data d writable configurable) \<and>
               \<not> nullish d \<longrightarrow>
                 Reflect_get (base_or_empty bs) property The_base = Inr d \<and>
                 Proxy_get px property = Inr (Member d)) \<and>
              (\<not> Reflect_has (base_or_empty bs) property \<longrightarrow>
                 Proxy_get px property =
                   Inr (Function (defaultTapInternal (created w) (serviceName cfg) property
                                    (withMsgPack cfg)))) \<and>
              (Reflect_get t property The_proxy = Inr v' \<and> \<not> nullish v' \<longrightarrow>
                 Proxy_get (px\<lparr>target := t\<rparr>) property = Inr (Member v')) \<and>
              (\<not> Reflect_has t property \<longrightarrow>
                 Proxy_get (px\<lparr>target := t\<rparr>) property =
                   Inr (Function (defaultTapInternal (created w) (serviceName cfg) property
                                    (withMsgPack cfg)))))"
proof -
  obtain px w' where mk: "createService cfg ac bs w = Inr (px, w')"
    and tr: "traps px = only_get (get_trap (created w) (serviceName cfg) (withMsgPack cfg))"
    and tg: "target px = base_or_empty bs"
    using createService_result [of cfg ac bs w] by blast
  obtain qx u' where mk': "createService_ext cfg ac bs w = Inr (qx, u')"
    and tr': "traps qx = only_get (get_trap_ext (created w) (serviceName cfg) (withMsgPack cfg))"
    and tg': "target qx = base_or_empty bs"
    using createService_ext_result [of cfg ac bs w] by blast
  note ord = get_trap_ordinary [OF p] and ord' = get_trap_ext_ordinary [OF p]
  have tr_t: "traps (px\<lparr>target := t\<rparr>) = only_get (get_trap (created w) (serviceName cfg) (withMsgPack cfg))"
    and tr_t': "traps (qx\<lparr>target := t\<rparr>) = only_get (get_trap_ext (created w) (serviceName cfg) (withMsgPack cfg))"
    using tr tr' by simp_all
  have one: "Proxy_get px property = Inr (Member x)"
    if "Reflect_get (base_or_empty bs) property The_proxy = Inr x" "\<not> nullish x" for x
    using read_member [OF tr ord] that by (simp add: tg)
  have one': "Proxy_get qx property = Inr (Member x)"
    if "Reflect_get (base_or_empty bs) property The_proxy = Inr x" "\<not> nullish x" for x
    using read_member [OF tr' ord'] that by (simp add: tg')
  have two: "Proxy_get px property =
               Inr (Function (defaultTapInternal (created w) (serviceName cfg) property (withMsgPack cfg)))"
    if "\<not> Reflect_has (base_or_empty bs) property"
    using read_absent [OF tr ord] that by (simp add: tg)
  have two': "Proxy_get qx property =
               Inr (Function (defaultTapInternal (created w) (serviceName cfg) property (withMsgPack cfg)))"
    if "\<not> Reflect_has (base_or_empty bs) property"
    using read_absent [OF tr' ord'] that by (simp add: tg')
  have three: "Proxy_get (px\<lparr>target := t\<rparr>) property = Inr (Member x)"
    if "Reflect_get t property The_proxy = Inr x" "\<not> nullish x" for x
    using read_member [OF tr_t, of property "created w" "serviceName cfg" "withMsgPack cfg" x] ord that
    by simp
  have three': "Proxy_get (qx\<lparr>target := t\<rparr>) property = Inr (Member x)"
    if "Reflect_get t property The_proxy = Inr x" "\<not> nullish x" for x
    using read_member [OF tr_t', of property "created w" "serviceName cfg" "withMsgPack cfg" x] ord' that
    by simp
  have four: "Proxy_get (px\<lparr>target := t\<rparr>) property =
               Inr (Function (defaultTapInternal (created w) (serviceName cfg) property (withMsgPack cfg)))"
    if "\<not> Reflect_has t property"
    using read_absent [OF tr_t, of property "created w" "serviceName cfg" "withMsgPack cfg"] ord that
    by simp
  have four': "Proxy_get (qx\<lparr>target := t\<rparr>) property =
               Inr (Function (defaultTapInternal (created w) (serviceName cfg) property (withMsgPack cfg)))"
    if "\<not> Reflect_has t property"
    using read_absent [OF tr_t', of property "created w" "serviceName cfg" "withMsgPack cfg"] ord' that
    by simp
  have data: "Reflect_get (base_or_empty bs) property this = Inr d"
    if "find_slot (base_or_empty bs) property = Some (Data d writable configurable)" for this
    using that by (rule Reflect_get_data)
  show ?thesis
    using one one' two two' three three' four four' data
    by (simp add: mk mk')
qed

text \<open>
  The tests "Should pick values from existing service" and "Should fallback gracefully",
  the same proxy after its base object has gained or lost a member
  (\<open>proxy.IDontExistAtAll = 1\<close>, \<open>delete proxy.someProperty\<close>, both passed on to the
  base object), and a getter read with the proxy as \<open>this\<close>.
\<close>

theorem base_member_precedence_witness:
  "PStr ''someProperty'' \<notin> set control_names \<and>
   PStr ''IDontExistAtAll'' \<notin> set control_names \<and>
   PStr ''x'' \<notin> set control_names \<and>
   Reflect_get (base_or_empty (Some existingservice)) (PStr ''someProperty'') The_proxy
     = Inr (JStr ''IExist'') \<and>
   find_slot (base_or_empty (Some existingservice)) (PStr ''someProperty'')
     = Some (Data (JStr ''IExist'') True True) \<and>
   \<not> nullish (JStr ''IExist'') \<and>
   \<not> Reflect_has (base_or_empty (Some existingservice)) (PStr ''IDontExistAtAll'') \<and>
   Reflect_get (Reflect_set existingservice (PStr ''IDontExistAtAll'') (JNum 1))
     (PStr ''IDontExistAtAll'') The_proxy = Inr (JNum 1) \<and>
   \<not> nullish (JNum 1) \<and>
   \<not> Reflect_has (Reflect_deleteProperty existingservice (PStr ''someProperty''))
       (PStr ''someProperty'') \<and>
   Reflect_get (base_or_empty (Some this_dependent_service)) (PStr ''x'') The_proxy
     = Inr (JStr ''some'') \<and>
   \<not> nullish (JStr ''some'') \<and>
   (case createService (IMyService_config None) (Some []) (Some existingservice) no_instances of
      Inl thrown \<Rightarrow> False
    | Inr (px, w) \<Rightarrow>
        Proxy_get px (PStr ''someProperty'') = Inr (Member (JStr ''IExist'')) \<and>
        Proxy_get px (PStr ''IDontExistAtAll'') =
          Inr (Function (DefaultTrap 0 (Some ''IMyService'') (PStr ''IDontExistAtAll'') False)) \<and>
        Proxy_get (Proxy_set px (PStr ''IDontExistAtAll'') (JNum 1)) (PStr ''IDontExistAtAll'') =
          Inr (Member (JNum 1)) \<and>
        Proxy_get (Proxy_delete px (PStr ''someProperty'')) (PStr ''someProperty'') =
          Inr (Function (DefaultTrap 0 (Some ''IMyService'') (PStr ''someProperty'') False))) \<and>
   (case createService_ext (IMyService_config None) (Some []) (Some existingservice) no_instances of
      Inl thrown \<Rightarrow> False
    | Inr (px, w) \<Rightarrow>
        Proxy_get px (PStr ''someProperty'') = Inr (Member (JStr ''IExist'')) \<and>
        Proxy_get px (PStr ''IDontExistAtAll'') =
          Inr (Function (DefaultTrap 0 (Some ''IMyService'') (PStr ''IDontExistAtAll'') False)) \<and>
        Proxy_get (Proxy_set px (PStr ''IDontExistAtAll'') (JNum 1)) (PStr ''IDontExistAtAll'') =
          Inr (Member (JNum 1)) \<and>
        Proxy_get (Proxy_delete px (PStr ''someProperty'')) (PStr ''someProperty'') =
          Inr (Function (DefaultTrap 0 (Some ''IMyService'') (PStr ''someProperty'') False))) \<and>
   (case createService (IMyService_config None) None (Some this_dependent_service) no_instances of
      Inl thrown \<Rightarrow> False
    | Inr (px, w) \<Rightarrow> Proxy_get px (PStr ''x'') = Inr (Member (JStr ''some'')))"
proof -
  have a: "PStr ''someProperty'' \<notin> set control_names"
    and b: "PStr ''IDontExistAtAll'' \<notin> set control_names"
    and c: "PStr ''x'' \<notin> set control_names"
    by (simp_all add: control_names_def)
  have base: "base_or_empty (Some existingservice) = existingservice"
    "base_or_empty (Some this_dependent_service) = this_dependent_service"
    by (simp_all add: base_or_empty_def)
  have reads: "Reflect_get existingservice (PStr ''someProperty'') The_proxy = Inr (JStr ''IExist'')"
    "find_slot existingservice (PStr ''someProperty'') = Some (Data (JStr ''IExist'') True True)"
    "\<not> Reflect_has existingservice (PStr ''IDontExistAtAll'')"
    "Reflect_get (Reflect_set existingservice (PStr ''IDontExistAtAll'') (JNum 1))
       (PStr ''IDontExistAtAll'') The_proxy = Inr (JNum 1)"
    "\<not> Reflect_has (Reflect_deleteProperty existingservice (PStr ''someProperty''))
       (PStr ''someProperty'')"
    "Reflect_get this_dependent_service (PStr ''x'') The_proxy = Inr (JStr ''some'')"
    by (simp_all add: Reflect_get_def Reflect_has_def Reflect_set_def Reflect_deleteProperty_def
        add_property_def find_slot_def existingservice_def this_dependent_service_def
        Object_prototype_def plain_def)
  have upd: "Proxy_set \<lparr>target = existingservice, traps = only_get tr\<rparr> p v =
               \<lparr>target = existingservice, traps = only_get tr\<rparr>\<lparr>target := Reflect_set existingservice p v\<rparr>"
    "Proxy_delete \<lparr>target = existingservice, traps = only_get tr\<rparr> p =
               \<lparr>target = existingservice, traps = only_get tr\<rparr>\<lparr>target := Reflect_deleteProperty existingservice p\<rparr>"
    for tr p v
    by (simp_all add: Proxy_set_def Proxy_delete_def only_get_def)
  have mk: "createService (IMyService_config None) ac bs no_instances =
              Inr (\<lparr>target = base_or_empty bs, traps = only_get (get_trap 0 (Some ''IMyService'') None)\<rparr>,
                   snd (axios_create (spread_into
                      [(''baseURL'', JStr ''http://localhost/''), (''headers'', JObj [])]
                      (optional_object ac)) no_instances))"
    and mk': "createService_ext (IMyService_config None) ac bs no_instances =
              Inr (\<lparr>target = base_or_empty bs, traps = only_get (get_trap_ext 0 (Some ''IMyService'') None)\<rparr>,
                   snd (axios_create (spread_into
                      [(''baseURL'', JStr ''http://localhost/''), (''headers'', JObj [])]
                      (optional_object ac)) no_instances))" for ac bs
    by (simp_all add: createService_def createService_ext_def IMyService_config_def
        spread_into_def and_then_def axios_create_def no_instances_def)
  have g: "defaultTapInternal (created no_instances) (serviceName (IMyService_config None)) p
             (withMsgPack (IMyService_config None)) = DefaultTrap 0 (Some ''IMyService'') p False" for p
    by (simp add: defaultTapInternal_def IMyService_config_def no_instances_def)
  show ?thesis
    using a b c reads
      base_member_precedence [OF a, where cfg = "IMyService_config None" and ac = "Some []"
        and bs = "Some existingservice" and w = no_instances and v = "JStr ''IExist''"
        and d = "JStr ''IExist''" and writable = True and configurable = True
        and t = "Reflect_deleteProperty existingservice (PStr ''someProperty'')"]
      base_member_precedence [OF b, where cfg = "IMyService_config None" and ac = "Some []"
        and bs = "Some existingservice" and w = no_instances
        and t = "Reflect_set existingservice (PStr ''IDontExistAtAll'') (JNum 1)"
        and v' = "JNum 1"]
      base_member_precedence [OF c, where cfg = "IMyService_config None" and ac = None
        and bs = "Some this_dependent_service" and w = no_instances and v = "JStr ''some''"]
    by (simp add: base mk mk' upd g)
qed

text \<open>
  C9, as stated, fails on a frozen base object: the trap returns the synthesized function
  for \<open>nul\<close> (whose value is \<open>null\<close>) and the management function for
  \<open>addHeaders\<close>, the base object holds other values under these names and cannot change
  them, and the read throws a \<open>TypeError\<close>.
\<close>

theorem frozen_base_read_throws:
  "(case createService (IMyService_config None) None (Some frozen_service) no_instances of
      Inl thrown \<Rightarrow> False
    | Inr (px, w) \<Rightarrow>
        Proxy_get px (PStr ''nul'') = Inl invariant_violation \<and>
        Proxy_get px (PStr ''addHeaders'') = Inl invariant_violation) \<and>
   (case createService_ext (IMyService_config None) None (Some frozen_service) no_instances of
      Inl thrown \<Rightarrow> False
    | Inr (px, w) \<Rightarrow>
        Proxy_get px (PStr ''nul'') = Inl invariant_violation \<and>
        Proxy_get px (PStr ''addHeaders'') = Inl invariant_violation)"
  by (simp add: run_defs frozen_service_def)

text \<open>
  C9, amended. In either listing the \<open>get\<close> trap returns for every property, every
  target and every receiver: it has no path that throws. When the base object's getter
  throws (any error) and the name is none of the control names, the read on the proxy
  returns the synthesized remote-call function for that name. A read on the proxy returns
  whenever the name is not pinned on the base object; a read that throws throws the
  engine's \<open>TypeError\<close>, on a pinned name.
\<close>

theorem property_read_never_throws:
  "(case createService cfg ac bs w of
      Inl thrown \<Rightarrow> False
    | Inr (px, w') \<Rightarrow>
        traps px = only_get (get_trap (created w) (serviceName cfg) (withMsgPack cfg)) \<and>
        (\<exists>g. get_trap (created w) (serviceName cfg) (withMsgPack cfg) t property this = Inr g) \<and>
        (\<not> pinned (base_or_empty bs) property \<longrightarrow> (\<exists>g. Proxy_get px property = Inr g)) \<and>
        (property \<notin> set control_names \<and>
         Reflect_get (base_or_empty bs) property The_proxy = Inl e \<longrightarrow>
           Proxy_get px property =
             Inr (Function (defaultTapInternal (created w) (serviceName cfg) property
                              (withMsgPack cfg)))) \<and>
        (Proxy_get px property = Inl thrown \<longrightarrow>
           pinned (base_or_empty bs) property \<and> thrown = invariant_violation)) \<and>
   (case createService_ext cfg ac bs w of
      Inl thrown \<Rightarrow> False
    | Inr (px, w') \<Rightarrow>
        traps px = only_get (get_trap_ext (created w) (serviceName cfg) (withMsgPack cfg)) \<and>
        (\<exists>g. get_trap_ext (created w) (serviceName cfg) (withMsgPack cfg) t property this = Inr g) \<and>
        (\<not> pinned (base_or_empty bs) property \<longrightarrow> (\<exists>g. Proxy_get px property = Inr g)) \<and>
        (property \<notin> set control_names \<and>
         Reflect_get (base_or_empty bs) property The_proxy = Inl e \<longrightarrow>
           Proxy_get px property =
             Inr (Function (defaultTapInternal (created w) (serviceName cfg) property
                              (withMsgPack cfg)))) \<and>
        (Proxy_get px property = Inl thrown \<longrightarrow>
           pinned (base_or_empty bs) property \<and> thrown = invariant_violation))"
proof -
  obtain px w' where mk: "createService cfg ac bs w = Inr (px, w')"
    and tr: "traps px = only_get (get_trap (created w) (serviceName cfg) (withMsgPack cfg))"
    and tg: "target px = base_or_empty bs"
    using createService_result [of cfg ac bs w] by blast
  obtain qx u' where mk': "createService_ext cfg ac bs w = Inr (qx, u')"
    and tr': "traps qx = only_get (get_trap_ext (created w) (serviceName cfg) (withMsgPack cfg))"
    and tg': "target qx = base_or_empty bs"
    using createService_ext_result [of cfg ac bs w] by blast
  obtain g where g: "get_trap (created w) (serviceName cfg) (withMsgPack cfg)
                       (base_or_empty bs) property The_proxy = Inr g"
    using get_trap_returns by blast
  obtain g' where g': "get_trap_ext (created w) (serviceName cfg) (withMsgPack cfg)
                       (base_or_empty bs) property The_proxy = Inr g'"
    using get_trap_ext_returns by blast
  have read: "Proxy_get px property =
                (if engine_accepts (map_of (own (base_or_empty bs)) property) g then Inr g
                 else Inl invariant_violation)"
    by (simp add: Proxy_get_only_get [OF tr] tg g)
  have read': "Proxy_get qx property =
                (if engine_accepts (map_of (own (base_or_empty bs)) property) g' then Inr g'
                 else Inl invariant_violation)"
    by (simp add: Proxy_get_only_get [OF tr'] tg' g')
  have unpinned: "\<exists>x. Proxy_get px property = Inr x" "\<exists>x. Proxy_get qx property = Inr x"
    if "\<not> pinned (base_or_empty bs) property"
    using engine_accepts_unpinned [OF that] by (simp_all add: read read')
  have only_pinned: "pinned (base_or_empty bs) property \<and> thrown = invariant_violation"
    if "Proxy_get px property = Inl thrown \<or> Proxy_get qx property = Inl thrown"
    using that engine_accepts_unpinned [of "base_or_empty bs" property]
    by (auto simp: read read' split: if_splits)
  have thrown: "Proxy_get px property =
             Inr (Function (defaultTapInternal (created w) (serviceName cfg) property (withMsgPack cfg)))"
    "Proxy_get qx property =
             Inr (Function (defaultTapInternal (created w) (serviceName cfg) property (withMsgPack cfg)))"
    if "property \<notin> set control_names" "Reflect_get (base_or_empty bs) property The_proxy = Inl e"
    using read_thrown [OF tr get_trap_ordinary [OF that(1)]]
      read_thrown [OF tr' get_trap_ext_ordinary [OF that(1)]] that(2)
    by (simp_all add: tg tg')
  show ?thesis
    using unpinned only_pinned thrown get_trap_returns get_trap_ext_returns
    by (simp add: mk mk' tr tr')
qed

text \<open>
  A getter that throws an ordinary error: the read gives the synthesized function. A
  frozen base object holding \<open>null\<close>: the read throws the engine's error.
\<close>

theorem property_read_never_throws_witness:
  "\<not> pinned (base_or_empty (Some throwing_service)) (PStr ''broken'') \<and>
   PStr ''broken'' \<notin> set control_names \<and>
   Reflect_get (base_or_empty (Some throwing_service)) (PStr ''broken'') The_proxy
     = Inl (OtherError ''boom'') \<and>
   (case createService (IMyService_config None) None (Some throwing_service) no_instances of
      Inl thrown \<Rightarrow> False
    | Inr (px, w) \<Rightarrow>
        Proxy_get px (PStr ''broken'') =
          Inr (Function (DefaultTrap 0 (Some ''IMyService'') (PStr ''broken'') False))) \<and>
   (case createService_ext (IMyService_config None) None (Some throwing_service) no_instances of
      Inl thrown \<Rightarrow> False
    | Inr (px, w) \<Rightarrow>
        Proxy_get px (PStr ''broken'') =
          Inr (Function (DefaultTrap 0 (Some ''IMyService'') (PStr ''broken'') False))) \<and>
   (case createService (IMyService_config None) None (Some frozen_service) no_instances of
      Inl thrown \<Rightarrow> False
    | Inr (px, w) \<Rightarrow> Proxy_get px (PStr ''nul'') = Inl invariant_violation) \<and>
   (case createService_ext (IMyService_config None) None (Some frozen_service) no_instances of
      Inl thrown \<Rightarrow> False
    | Inr (px, w) \<Rightarrow> Proxy_get px (PStr ''nul'') = Inl invariant_violation) \<and>
   pinned (base_or_empty (Some frozen_service)) (PStr ''nul'')"
proof -
  have a: "\<not> pinned (base_or_empty (Some throwing_service)) (PStr ''broken'')"
    and b: "PStr ''broken'' \<notin> set control_names"
    and c: "Reflect_get (base_or_empty (Some throwing_service)) (PStr ''broken'') The_proxy
              = Inl (OtherError ''boom'')"
    by (simp_all add: pinned_def control_names_def Reflect_get_def find_slot_def
        throwing_service_def base_or_empty_def)
  have d: "(case createService (IMyService_config None) None (Some frozen_service) no_instances of
              Inl thrown \<Rightarrow> False
            | Inr (px, w) \<Rightarrow> Proxy_get px (PStr ''nul'') = Inl invariant_violation)"
    "(case createService_ext (IMyService_config None) None (Some frozen_service) no_instances of
              Inl thrown \<Rightarrow> False
            | Inr (px, w) \<Rightarrow> Proxy_get px (PStr ''nul'') = Inl invariant_violation)"
    by (simp_all add: run_defs frozen_service_def)
  have g: "defaultTapInternal (created no_instances) (serviceName (IMyService_config None)) p
             (withMsgPack (IMyService_config None)) = DefaultTrap 0 (Some ''IMyService'') p False" for p
    by (simp add: defaultTapInternal_def IMyService_config_def no_instances_def)
  show ?thesis
    using a b c d
      property_read_never_throws [where cfg = "IMyService_config None" and ac = None
        and bs = "Some throwing_service" and w = no_instances and property = "PStr ''broken''"
        and e = "OtherError ''boom''"]
      property_read_never_throws [where cfg = "IMyService_config None" and ac = None
        and bs = "Some frozen_service" and w = no_instances and property = "PStr ''nul''"
        and thrown = invariant_violation]
    by (auto simp: g split: sum.splits prod.splits)
qed

section \<open>Synthesized calls: what is sent and what comes back\<close>

lemma flag_default: "(case f of None \<Rightarrow> False | Some b \<Rightarrow> b) = (f = Some True)"
  by (cases f) auto


lemma defaultTrap_post:
  "args \<noteq> [] \<Longrightarrow>
   defaultTrap net mp s p f args h =
     (net h (POST (template s @ ''/'' @ String_of p)
                  (if f then serialize mp (JArr args) else JArr args)),
      h\<lparr>sent := sent h @ [POST (template s @ ''/'' @ String_of p)
                               (if f then serialize mp (JArr args) else JArr args)]\<rparr>)"
  by (simp add: defaultTrap_def http_post_def Let_def)


lemma defaultTrap_ext_post:
  "args \<noteq> [] \<Longrightarrow>
   snd (defaultTrap_ext net mp s p f args h) =
     h\<lparr>sent := sent h @ [POST (template s @ ''/'' @ String_of p) (JArr args)]\<rparr>"
  by (simp add: defaultTrap_ext_def http_post_def Let_def)

text \<open>What the extended \<open>defaultTrap\<close> resolves to.\<close>

lemma prop_lookup_with_data:
  "prop_lookup (AList.update ''data'' d (spread_into [] (JObj result))) k =
     (if k = ''data'' then Some d else prop_lookup result k)"
proof -
  have d0: "distinct (map fst (spread_into [] (JObj result)))"
    by (rule distinct_spread_into) simp
  then have d1: "distinct (map fst (AList.update ''data'' d (spread_into [] (JObj result))))"
    by (simp add: distinct_update)
  have old: "map_of (spread_into [] (JObj result)) k = prop_lookup result k"
    by (simp add: spread_into_def map_of_fold_update prop_lookup_def)
  show ?thesis
    unfolding prop_lookup_def [of "AList.update ''data'' d (spread_into [] (JObj result))"]
    using old by (simp add: distinct_map_of_rev_eq [OF d1] update_conv')
qed

lemma defaultTrap_ext_fulfilled:
  assumes "net h (if args = [] then GET (template s @ ''/'' @ String_of p)
                  else POST (template s @ ''/'' @ String_of p) (JArr args)) = Inr result"
  shows "fst (defaultTrap_ext net mp s p False args h) = Inr result"
    and "deserialize mp (response_data result) = Inr d \<Longrightarrow>
         \<exists>decoded. fst (defaultTrap_ext net mp s p True args h) = Inr decoded \<and>
           prop_lookup decoded ''data'' = Some d \<and>
           (\<forall>k. k \<noteq> ''data'' \<longrightarrow> prop_lookup decoded k = prop_lookup result k)"
    and "deserialize mp (response_data result) = Inl thrown \<Longrightarrow>
         fst (defaultTrap_ext net mp s p True args h) = Inl thrown"
  using assms
  by (auto simp: defaultTrap_ext_def http_get_def http_post_def prop_lookup_with_data Let_def
      split: if_splits)

lemma defaultTrap_ext_rejected:
  assumes "net h (if args = [] then GET (template s @ ''/'' @ String_of p)
                  else POST (template s @ ''/'' @ String_of p) (JArr args)) = Inl rejection"
  shows "fst (defaultTrap_ext net mp s p f args h) = Inl rejection"
  using assms
  by (auto simp: defaultTrap_ext_def http_get_def http_post_def Let_def split: if_splits)

lemma defaultTrap_raw:
  "fst (defaultTrap net mp s p f args h) =
     net h (if args = [] then GET (template s @ ''/'' @ String_of p)
            else POST (template s @ ''/'' @ String_of p)
                   (if f then serialize mp (JArr args) else JArr args))"
  by (simp add: defaultTrap_def http_get_def http_post_def Let_def)

text \<open>Running a function on an instance.\<close>

lemma on_instance_snd:
  "snd (on_instance r f w) = w\<lparr>instance_of := (instance_of w)(r := snd (f (instance_of w r)))\<rparr>"
  by (simp add: on_instance_def case_prod_beta)

lemma runs_on_on_instance: "runs_on (Some (on_instance r f w)) r f w"
  by (simp add: runs_on_def on_instance_def case_prod_beta)

lemma runs_on_settled:
  "runs_on (Some (settled (on_instance r f w))) r (\<lambda>h. settled (f h)) w"
  by (cases "f (instance_of w r)")
     (auto simp: runs_on_def on_instance_def settled_def split: sum.splits)

lemma get_trap_synthesized_is:
  "get_trap r s f t p this = Inr (Function (DefaultTrap r' s' p' f')) \<Longrightarrow>
     r' = r \<and> s' = s \<and> p' = p \<and> f' = (f = Some True)"
  by (auto simp: get_trap_def coalesce_def defaultTapInternal_def flag_default Let_def
      split: if_splits)

lemma get_trap_ext_synthesized_is:
  "get_trap_ext r s f t p this = Inr (Function (DefaultTrap r' s' p' f')) \<Longrightarrow>
     r' = r \<and> s' = s \<and> p' = p \<and> f' = (f = Some True)"
  by (auto simp: get_trap_ext_def coalesce_def defaultTapInternal_def flag_default Let_def
      split: if_splits)

lemma remote_call_SomeD:
  assumes tr: "traps px = only_get (get_trap r s f)"
    and call: "remote_call net mp px p args w = Some out"
  shows "out = on_instance r (defaultTrap net mp s p (f = Some True) args) w"
proof -
  obtain g where g: "get_trap r s f (target px) p The_proxy = Inr g"
    using get_trap_returns by blast
  with call tr have c: "call_synthesized net mp g args w = Some out"
    by (simp add: remote_call_def Proxy_get_only_get [OF tr] split: if_splits)
  then obtain r' s' p' f' where gf: "g = Function (DefaultTrap r' s' p' f')"
    and out: "out = on_instance r' (defaultTrap net mp s' p' f' args) w"
    by (auto simp: call_synthesized_def split: got.splits closure.splits)
  from get_trap_synthesized_is [OF g [unfolded gf]] out show ?thesis by simp
qed

lemma remote_call_ext_SomeD:
  assumes tr: "traps px = only_get (get_trap_ext r s f)"
    and call: "remote_call_ext net mp px p args w = Some out"
  shows "out = on_instance r (defaultTrap_ext net mp s p (f = Some True) args) w"
proof -
  obtain g where g: "get_trap_ext r s f (target px) p The_proxy = Inr g"
    using get_trap_ext_returns by blast
  with call tr have c: "call_synthesized_ext net mp g args w = Some out"
    by (simp add: remote_call_ext_def Proxy_get_only_get [OF tr] split: if_splits)
  then obtain r' s' p' f' where gf: "g = Function (DefaultTrap r' s' p' f')"
    and out: "out = on_instance r' (defaultTrap_ext net mp s' p' f' args) w"
    by (auto simp: call_synthesized_ext_def split: got.splits closure.splits)
  from get_trap_ext_synthesized_is [OF g [unfolded gf]] out show ?thesis by simp
qed



section \<open>Construction and the untrapped operations\<close>

text \<open>
  C1, as stated, fails: \<open>createService\<close> checks nothing. With an empty service name, or
  with none at all, it returns a proxy, and a call on that proxy goes out to
  \<open>/getSample\<close>, respectively \<open>undefined/getSample\<close>.
\<close>

theorem createService_accepts_malformed_config:
  "(case createService \<lparr>baseURL = None, serviceName = Some [], withMsgPack = None\<rparr> None None
           no_instances of
      Inl thrown \<Rightarrow> False
    | Inr (px, w) \<Rightarrow>
        sent (instance_of w 0) = [] \<and>
        (case remote_call mock_axios sample_codec px (PStr ''getSample'') [] w of
           None \<Rightarrow> False
         | Some (answer, w') \<Rightarrow> sent (instance_of w' 0) = [GET ''/getSample''])) \<and>
   (case createService_ext \<lparr>baseURL = Some [], serviceName = None, withMsgPack = None\<rparr> None None
           no_instances of
      Inl thrown \<Rightarrow> False
    | Inr (px, w) \<Rightarrow>
        sent (instance_of w 0) = [] \<and>
        (case remote_call_ext mock_axios sample_codec px (PStr ''getSample'') [] w of
           None \<Rightarrow> False
         | Some (answer, w') \<Rightarrow> sent (instance_of w' 0) = [GET ''undefined/getSample'']))"
  by (simp add: run_defs)

text \<open>
  C1, amended. \<open>createService\<close> validates nothing: for every configuration (a base URL
  or service name that is absent or empty included), every axios configuration and every
  base object, in either listing, it returns normally with a proxy around the base object
  whose handler is the \<open>get\<close> trap closed over the new instance and over the given
  service name as it is; no request has been sent on the instance it made, and every other
  instance is as it was.
\<close>

theorem createService_never_fails:
  "(case createService cfg ac bs w of
      Inl thrown \<Rightarrow> False
    | Inr (px, w') \<Rightarrow>
        sent (instance_of w' (created w)) = [] \<and> target px = base_or_empty bs \<and>
        traps px = only_get (get_trap (created w) (serviceName cfg) (withMsgPack cfg)) \<and>
        instance_of w' = (instance_of w)(created w := instance_of w' (created w))) \<and>
   (case createService_ext cfg ac bs w of
      Inl thrown \<Rightarrow> False
    | Inr (px, w') \<Rightarrow>
        sent (instance_of w' (created w)) = [] \<and> target px = base_or_empty bs \<and>
        traps px = only_get (get_trap_ext (created w) (serviceName cfg) (withMsgPack cfg)) \<and>
        instance_of w' = (instance_of w)(created w := instance_of w' (created w)))"
  by (simp add: createService_def createService_ext_def axios_create_def new_instance_def Let_def)

lemma Reflect_has_own: "\<not> Reflect_has t p \<Longrightarrow> p \<notin> set (Reflect_ownKeys t)"
  by (auto simp: Reflect_has_def Reflect_ownKeys_def find_slot_def map_of_eq_None_iff
      split: option.splits)

lemma control_name_read_is_function:
  assumes "name \<in> set control_names" "\<not> Reflect_has t name"
  shows "\<exists>f. get_trap r s w t name The_proxy = Inr (Function f)"
    and "\<exists>f. get_trap_ext r s w t name The_proxy = Inr (Function f)"
  using assms(1) Reflect_get_absent [OF assms(2)]
  by (auto simp: control_names_def get_trap_def get_trap_ext_def coalesce_def)

text \<open>
  C10. The handler that \<open>createService\<close> passes to \<open>Proxy\<close> has a \<open>get\<close> trap and
  no other, in either listing. So \<open>in\<close>, key enumeration, writes and deletes on the proxy
  are those of the base object; and for a control name that the base object does not have,
  \<open>name in proxy\<close> is false and the name is not among the keys, while reading it returns
  a function.
\<close>

theorem only_reads_are_trapped:
  "(case createService cfg ac bs w of
      Inl thrown \<Rightarrow> False
    | Inr (px, w') \<Rightarrow>
        Proxy_has px p = Reflect_has (base_or_empty bs) p \<and>
        Proxy_ownKeys px = Reflect_ownKeys (base_or_empty bs) \<and>
        Proxy_set px p v = px\<lparr>target := Reflect_set (base_or_empty bs) p v\<rparr> \<and>
        Proxy_delete px p = px\<lparr>target := Reflect_deleteProperty (base_or_empty bs) p\<rparr> \<and>
        (name \<in> set control_names \<and> \<not> Reflect_has (base_or_empty bs) name \<longrightarrow>
           \<not> Proxy_has px name \<and> name \<notin> set (Proxy_ownKeys px) \<and>
           (\<exists>f. Proxy_get px name = Inr (Function f)))) \<and>
   (case createService_ext cfg ac bs w of
      Inl thrown \<Rightarrow> False
    | Inr (px, w') \<Rightarrow>
        Proxy_has px p = Reflect_has (base_or_empty bs) p \<and>
        Proxy_ownKeys px = Reflect_ownKeys (base_or_empty bs) \<and>
        Proxy_set px p v = px\<lparr>target := Reflect_set (base_or_empty bs) p v\<rparr> \<and>
        Proxy_delete px p = px\<lparr>target := Reflect_deleteProperty (base_or_empty bs) p\<rparr> \<and>
        (name \<in> set control_names \<and> \<not> Reflect_has (base_or_empty bs) name \<longrightarrow>
           \<not> Proxy_has px name \<and> name \<notin> set (Proxy_ownKeys px) \<and>
           (\<exists>f. Proxy_get px name = Inr (Function f))))"
proof -
  obtain px w' where mk: "createService cfg ac bs w = Inr (px, w')"
    and tr: "traps px = only_get (get_trap (created w) (serviceName cfg) (withMsgPack cfg))"
    and tg: "target px = base_or_empty bs"
    using createService_result [of cfg ac bs w] by blast
  obtain qx u' where mk': "createService_ext cfg ac bs w = Inr (qx, u')"
    and tr': "traps qx = only_get (get_trap_ext (created w) (serviceName cfg) (withMsgPack cfg))"
    and tg': "target qx = base_or_empty bs"
    using createService_ext_result [of cfg ac bs w] by blast
  have fwd: "Proxy_has q p = Reflect_has (target q) p"
    "Proxy_ownKeys q = Reflect_ownKeys (target q)"
    "Proxy_set q p v = q\<lparr>target := Reflect_set (target q) p v\<rparr>"
    "Proxy_delete q p = q\<lparr>target := Reflect_deleteProperty (target q) p\<rparr>"
    "Proxy_has q name = Reflect_has (target q) name"
    if "traps q = only_get trap" for q :: proxy and trap
    using that by (simp_all add: Proxy_has_def Proxy_ownKeys_def Proxy_set_def Proxy_delete_def
        only_get_def)
  have fn: "\<exists>f. Proxy_get px name = Inr (Function f)" "\<exists>f. Proxy_get qx name = Inr (Function f)"
    if "name \<in> set control_names" "\<not> Reflect_has (base_or_empty bs) name"
    using control_name_read_is_function [OF that, of "created w" "serviceName cfg" "withMsgPack cfg"]
      absent_not_own [OF that(2)]
    by (auto simp: Proxy_get_only_get [OF tr] Proxy_get_only_get [OF tr'] tg tg' engine_accepts_def)
  show ?thesis
    using fn Reflect_has_own [of "base_or_empty bs" name]
    by (simp add: mk mk' fwd [OF tr] fwd [OF tr'] tg tg')
qed

text \<open>A proxy over \<open>{}\<close>: \<open>"addHeaders" in proxy\<close> is false, the read gives a function.\<close>

theorem only_reads_are_trapped_witness:
  "PStr ''addHeaders'' \<in> set control_names \<and>
   \<not> Reflect_has (base_or_empty None) (PStr ''addHeaders'') \<and>
   (case createService (IMyService_config None) None None no_instances of
      Inl thrown \<Rightarrow> False
    | Inr (px, w) \<Rightarrow>
        \<not> Proxy_has px (PStr ''addHeaders'') \<and>
        PStr ''addHeaders'' \<notin> set (Proxy_ownKeys px) \<and>
        (\<exists>f. Proxy_get px (PStr ''addHeaders'') = Inr (Function f))) \<and>
   (case createService_ext (IMyService_config None) None None no_instances of
      Inl thrown \<Rightarrow> False
    | Inr (px, w) \<Rightarrow>
        \<not> Proxy_has px (PStr ''addHeaders'') \<and>
        PStr ''addHeaders'' \<notin> set (Proxy_ownKeys px) \<and>
        (\<exists>f. Proxy_get px (PStr ''addHeaders'') = Inr (Function f)))"
proof -
  have a: "PStr ''addHeaders'' \<in> set control_names"
    by (simp add: control_names_def)
  have b: "\<not> Reflect_has (base_or_empty None) (PStr ''addHeaders'')"
    by (simp add: Reflect_has_def find_slot_def base_or_empty_def empty_object_def
        Object_prototype_def)
  show ?thesis
    using a b only_reads_are_trapped [where cfg = "IMyService_config None" and ac = None
        and bs = None and w = no_instances and name = "PStr ''addHeaders''"]
    by (auto split: sum.splits prod.splits)
qed

section \<open>The wire format of a synthesized call\<close>



text \<open>
  C5, as stated, fails on the extended listing: with \<open>withMsgPack\<close> set it posts the
  array of the arguments itself, not its serialization.
\<close>

theorem extended_listing_posts_unpacked_body:
  "(case createService_ext (IMyService_config (Some True)) None None no_instances of
      Inl thrown \<Rightarrow> False
    | Inr (px, w) \<Rightarrow>
        (case remote_call_ext mock_axios sample_codec px (PStr ''postSample'') [hello_world] w of
           None \<Rightarrow> False
         | Some (answer, w') \<Rightarrow>
             sent (instance_of w' 0) = [POST ''IMyService/postSample'' (JArr [hello_world])] \<and>
             sent (instance_of w' 0) \<noteq> [POST ''IMyService/postSample''
                            (serialize sample_codec (JArr [hello_world]))]))"
  by (simp add: run_defs sample_codec_def)

text \<open>
  C5, amended. For every synthesized call with one or more arguments: in
  \<open>src/src/index.ts\<close> the body posted is the codec's serialization of the argument array
  when the proxy was made with \<open>withMsgPack = true\<close> and the argument array itself
  otherwise; in the extended listing it is the argument array itself whatever
  \<open>withMsgPack\<close> is. (A read that did not give a synthesized function is no such call:
  \<open>None\<close>.)
\<close>

theorem request_body_encoding:
  assumes args: "args \<noteq> []"
  shows "(case createService cfg ac bs w of
            Inl thrown \<Rightarrow> False
          | Inr (px, w') \<Rightarrow>
              (case remote_call net mp px p args u of
                 None \<Rightarrow> True
               | Some (answer, u') \<Rightarrow>
                   sent (instance_of u' (created w)) = sent (instance_of u (created w)) @
                     [POST (template (serviceName cfg) @ ''/'' @ String_of p)
                        (if withMsgPack cfg = Some True
                         then serialize mp (JArr args) else JArr args)])) \<and>
         (case createService_ext cfg ac bs w of
            Inl thrown \<Rightarrow> False
          | Inr (px, w') \<Rightarrow>
              (case remote_call_ext net mp px p args u of
                 None \<Rightarrow> True
               | Some (answer, u') \<Rightarrow>
                   sent (instance_of u' (created w)) = sent (instance_of u (created w)) @
                     [POST (template (serviceName cfg) @ ''/'' @ String_of p) (JArr args)]))"
proof -
  obtain px w' where mk: "createService cfg ac bs w = Inr (px, w')"
    and tr: "traps px = only_get (get_trap (created w) (serviceName cfg) (withMsgPack cfg))"
    using createService_result [of cfg ac bs w] by blast
  obtain qx z where mk': "createService_ext cfg ac bs w = Inr (qx, z)"
    and tr': "traps qx = only_get (get_trap_ext (created w) (serviceName cfg) (withMsgPack cfg))"
    using createService_ext_result [of cfg ac bs w] by blast
  have one: "(case remote_call net mp px p args u of
                 None \<Rightarrow> True
               | Some (answer, u') \<Rightarrow>
                   sent (instance_of u' (created w)) = sent (instance_of u (created w)) @
                     [POST (template (serviceName cfg) @ ''/'' @ String_of p)
                        (if withMsgPack cfg = Some True
                         then serialize mp (JArr args) else JArr args)])"
  proof (cases "remote_call net mp px p args u")
    case None
    then show ?thesis by simp
  next
    case (Some out)
    from remote_call_SomeD [OF tr Some] show ?thesis
      by (simp add: Some on_instance_def defaultTrap_post [OF args])
  qed
  have two: "(case remote_call_ext net mp qx p args u of
                 None \<Rightarrow> True
               | Some (answer, u') \<Rightarrow>
                   sent (instance_of u' (created w)) = sent (instance_of u (created w)) @
                     [POST (template (serviceName cfg) @ ''/'' @ String_of p) (JArr args)])"
  proof (cases "remote_call_ext net mp qx p args u")
    case None
    then show ?thesis by simp
  next
    case (Some out)
    from remote_call_ext_SomeD [OF tr' Some]
      defaultTrap_ext_post [OF args, of net mp "serviceName cfg" p "withMsgPack cfg = Some True"
        "instance_of u (created w)"]
    show ?thesis
      by (simp add: Some case_prod_beta on_instance_snd)
  qed
  show ?thesis
    using one two by (simp add: mk mk')
qed

text \<open>\<open>postSample({hello: "world"})\<close> with and without msgpack, on \<open>src/src/index.ts\<close>.\<close>

theorem request_body_encoding_witness:
  "[hello_world] \<noteq> [] \<and>
   (case createService (IMyService_config (Some True)) None None no_instances of
      Inl thrown \<Rightarrow> False
    | Inr (px, w) \<Rightarrow>
        (case remote_call mock_axios sample_codec px (PStr ''postSample'') [hello_world] w of
           None \<Rightarrow> False
         | Some (answer, w') \<Rightarrow>
             sent (instance_of w' 0) =
               [POST ''IMyService/postSample'' (serialize sample_codec (JArr [hello_world]))])) \<and>
   (case createService (IMyService_config (Some False)) None None no_instances of
      Inl thrown \<Rightarrow> False
    | Inr (px, w) \<Rightarrow>
        (case remote_call mock_axios sample_codec px (PStr ''postSample'') [hello_world] w of
           None \<Rightarrow> False
         | Some (answer, w') \<Rightarrow>
             sent (instance_of w' 0) = [POST ''IMyService/postSample'' (JArr [hello_world])]))"
proof -
  have a: "[hello_world] \<noteq> []" by simp
  show ?thesis
    using a
      request_body_encoding [OF a, where cfg = "IMyService_config (Some True)" and ac = None
        and bs = None and net = mock_axios and mp = sample_codec and p = "PStr ''postSample''"
        and w = no_instances
        and u = "snd (axios_create [(''baseURL'', JStr ''http://localhost/''),
                                      (''headers'', JObj msgpack_headers)] no_instances)"]
      request_body_encoding [OF a, where cfg = "IMyService_config (Some False)" and ac = None
        and bs = None and net = mock_axios and mp = sample_codec and p = "PStr ''postSample''"
        and w = no_instances
        and u = "snd (axios_create [(''baseURL'', JStr ''http://localhost/''),
                                      (''headers'', JObj [])] no_instances)"]
    by (simp add: run_defs and_then_def spread_into_def msgpack_headers_def)
qed

text \<open>
  C6. The call of the test "Should have MsgPack Enabled": a proxy made with
  \<open>withMsgPack: true\<close>, \<open>postSample({hello: "world"})\<close>, and the mock transport, whose
  response carries the packed \<open>{hello: "world"}\<close> as \<open>data\<close>. With
  \<open>src/src/index.ts\<close> the result still has the packed bytes as \<open>data\<close>, which the codec
  would decode to \<open>{hello: "world"}\<close>; with the extended listing \<open>data\<close> is the decoded
  object. (In general: \<open>defaultTrap_raw\<close> and \<open>defaultTrap_ext_fulfilled\<close>.)
\<close>

theorem msgpack_response_left_packed:
  "(case createService (IMyService_config (Some True)) None None no_instances of
      Inl thrown \<Rightarrow> False
    | Inr (px, w) \<Rightarrow>
        (case remote_call mock_axios sample_codec px (PStr ''postSample'') [hello_world] w of
           None \<Rightarrow> False
         | Some (answer, w') \<Rightarrow>
             (case answer of
                Inl rejection \<Rightarrow> False
              | Inr result \<Rightarrow>
                  response_data result = hello_world_packed \<and>
                  response_data result \<noteq> hello_world \<and>
                  deserialize sample_codec (response_data result) = Inr hello_world))) \<and>
   (case createService_ext (IMyService_config (Some True)) None None no_instances of
      Inl thrown \<Rightarrow> False
    | Inr (px, w) \<Rightarrow>
        (case remote_call_ext mock_axios sample_codec px (PStr ''postSample'') [hello_world] w of
           None \<Rightarrow> False
         | Some (answer, w') \<Rightarrow>
             (case answer of
                Inl rejection \<Rightarrow> False
              | Inr result \<Rightarrow> response_data result = hello_world)))"
  by (simp add: run_defs sample_codec_def response_data_def prop_lookup_def
      hello_world_def hello_world_packed_def spread_into_def)

section \<open>The control names\<close>

lemma control_function_cases:
  "name \<in> set control_names \<Longrightarrow> \<exists>f. control_function name r = Some f"
  by (auto simp: control_names_def control_function_def)

lemma get_trap_ext_control:
  "control_function name r = Some f \<Longrightarrow> get_trap_ext r s w t name this = Inr (Function f)"
  by (auto simp: control_function_def get_trap_ext_def split: if_splits)

lemma get_trap_control:
  "name \<in> set [PStr ''addHeaders'', PStr ''removeHeaders''] \<Longrightarrow>
     control_function name r = Some f \<Longrightarrow> get_trap r s w t name this = Inr (Function f)"
  by (auto simp: control_function_def get_trap_def split: if_splits)

lemma string_args_strings: "string_args (map JStr names) = Some names"
  by (induction names) simp_all

text \<open>
  C3, as stated, fails twice. On \<open>src/src/index.ts\<close> \<open>createRequest\<close> is not a
  control name: reading it on a proxy over \<open>{}\<close> gives a synthesized remote call, which
  posts to \<open>IMyService/createRequest\<close>. And on a frozen base object that holds
  \<open>addHeaders\<close>, the read throws a \<open>TypeError\<close> instead of returning the management
  function.
\<close>

theorem control_names_not_always_answered:
  "(case createService (IMyService_config None) None None no_instances of
      Inl thrown \<Rightarrow> False
    | Inr (px, w) \<Rightarrow>
        Proxy_get px (PStr ''createRequest'') =
          Inr (Function (DefaultTrap 0 (Some ''IMyService'') (PStr ''createRequest'') False)) \<and>
        (case remote_call mock_axios sample_codec px (PStr ''createRequest'')
                [JObj [(''method'', JStr ''DELETE'')]] w of
           None \<Rightarrow> False
         | Some (answer, w') \<Rightarrow>
             sent (instance_of w' 0) =
               [POST ''IMyService/createRequest'' (JArr [JObj [(''method'', JStr ''DELETE'')]])])) \<and>
   (case createService_ext (IMyService_config None) None (Some frozen_service) no_instances of
      Inl thrown \<Rightarrow> False
    | Inr (px, w) \<Rightarrow> Proxy_get px (PStr ''addHeaders'') = Inl invariant_violation)"
  by (simp add: run_defs frozen_service_def)

text \<open>
  C3, amended. In the extended listing a read of any of the five control names returns
  the corresponding management function, whatever the base object holds under that name,
  unless the name is pinned on the base object, where the read throws a \<open>TypeError\<close>;
  in neither case does the name lead to a synthesized remote call (\<open>remote_call_ext\<close> is
  \<open>None\<close>). Each of the five functions is bound to the proxy's transport instance: a call of it, in
  any later store \<open>u\<close>, is the function of the source run on the instance
  \<open>createService\<close> made for this proxy, and no other instance changes. In
  \<open>src/src/index.ts\<close> all of that holds for \<open>addHeaders\<close> and \<open>removeHeaders\<close>; the
  other three names are resolved there like any other name: the base object's member when
  it has one that is not \<open>null\<close>/\<open>undefined\<close>, the synthesized remote call otherwise.
\<close>

theorem control_names_resolution:
  "(case createService_ext cfg ac bs w of
      Inl thrown \<Rightarrow> False
    | Inr (px, w') \<Rightarrow>
        (name \<in> set control_names \<and> \<not> pinned (base_or_empty bs) name \<longrightarrow>
           (\<exists>f. control_function name (created w) = Some f \<and>
                Proxy_get px name = Inr (Function f))) \<and>
        (name \<in> set control_names \<and> pinned (base_or_empty bs) name \<longrightarrow>
           Proxy_get px name = Inl invariant_violation) \<and>
        (name \<in> set control_names \<longrightarrow> remote_call_ext net mp px name args u = None) \<and>
        runs_on (call_function_ext net mp (AddHeaders (created w)) args u)
          (created w) (addHeaders_ext args) u \<and>
        runs_on (call_function_ext net mp (RemoveHeaders (created w)) (map JStr names) u)
          (created w) (removeHeaders_ext names) u \<and>
        runs_on (call_function_ext net mp (AddInterceptor (created w)) args u)
          (created w) (addInterceptor_ext args) u \<and>
        runs_on (call_function_ext net mp (RemoveInterceptor (created w)) args u)
          (created w) (removeInterceptor_ext args) u \<and>
        runs_on (call_function_ext net mp (CreateRequest (created w)) args u)
          (created w) (\<lambda>h. settled (createRequest_ext net args h)) u) \<and>
   (case createService cfg ac bs w of
      Inl thrown \<Rightarrow> False
    | Inr (px, w') \<Rightarrow>
        (name \<in> set [PStr ''addHeaders'', PStr ''removeHeaders''] \<and>
         \<not> pinned (base_or_empty bs) name \<longrightarrow>
           (\<exists>f. control_function name (created w) = Some f \<and>
                Proxy_get px name = Inr (Function f))) \<and>
        (name \<in> set [PStr ''addHeaders'', PStr ''removeHeaders''] \<and>
         pinned (base_or_empty bs) name \<longrightarrow>
           Proxy_get px name = Inl invariant_violation) \<and>
        (name \<in> set [PStr ''addHeaders'', PStr ''removeHeaders''] \<longrightarrow>
           remote_call net mp px name args u = None) \<and>
        runs_on (call_function net mp (AddHeaders (created w)) args u)
          (created w) (addHeaders args) u \<and>
        runs_on (call_function net mp (RemoveHeaders (created w)) (map JStr names) u)
          (created w) (removeHeaders names) u \<and>
        (name \<in> set [PStr ''addInterceptor'', PStr ''removeInterceptor'', PStr ''createRequest''] \<and>
         \<not> pinned (base_or_empty bs) name \<longrightarrow>
           Proxy_get px name =
             Inr (spec_member_or_synthesized (created w) (serviceName cfg) (withMsgPack cfg)
                    (base_or_empty bs) name)))"
proof -
  obtain px w' where mk: "createService cfg ac bs w = Inr (px, w')"
    and tr: "traps px = only_get (get_trap (created w) (serviceName cfg) (withMsgPack cfg))"
    and tg: "target px = base_or_empty bs"
    using createService_result [of cfg ac bs w] by blast
  obtain qx z where mk': "createService_ext cfg ac bs w = Inr (qx, z)"
    and tr': "traps qx = only_get (get_trap_ext (created w) (serviceName cfg) (withMsgPack cfg))"
    and tg': "target qx = base_or_empty bs"
    using createService_ext_result [of cfg ac bs w] by blast
  have ext_read: "\<exists>f. control_function name (created w) = Some f \<and> Proxy_get qx name = Inr (Function f)"
    if n: "name \<in> set control_names" and np: "\<not> pinned (base_or_empty bs) name"
  proof -
    obtain f where f: "control_function name (created w) = Some f"
      using control_function_cases [OF n] by blast
    from get_trap_ext_control [OF f] engine_accepts_unpinned [OF np] f show ?thesis
      by (simp add: Proxy_get_only_get [OF tr'] tg')
  qed
  have ext_pinned: "Proxy_get qx name = Inl invariant_violation"
    if n: "name \<in> set control_names" and np: "pinned (base_or_empty bs) name"
  proof -
    obtain f where f: "control_function name (created w) = Some f"
      using control_function_cases [OF n] by blast
    from get_trap_ext_control [OF f] engine_rejects_function [OF np] show ?thesis
      by (simp add: Proxy_get_only_get [OF tr'] tg')
  qed
  have two: "name \<in> set control_names"
    if "name \<in> set [PStr ''addHeaders'', PStr ''removeHeaders'']"
    using that by (auto simp: control_names_def)
  have read: "\<exists>f. control_function name (created w) = Some f \<and> Proxy_get px name = Inr (Function f)"
    if n: "name \<in> set [PStr ''addHeaders'', PStr ''removeHeaders'']"
      and np: "\<not> pinned (base_or_empty bs) name"
  proof -
    obtain f where f: "control_function name (created w) = Some f"
      using control_function_cases [OF two [OF n]] by blast
    from get_trap_control [OF n f] engine_accepts_unpinned [OF np] f show ?thesis
      by (simp add: Proxy_get_only_get [OF tr] tg)
  qed
  have pinned_read: "Proxy_get px name = Inl invariant_violation"
    if n: "name \<in> set [PStr ''addHeaders'', PStr ''removeHeaders'']"
      and np: "pinned (base_or_empty bs) name"
  proof -
    obtain f where f: "control_function name (created w) = Some f"
      using control_function_cases [OF two [OF n]] by blast
    from get_trap_control [OF n f] engine_rejects_function [OF np] show ?thesis
      by (simp add: Proxy_get_only_get [OF tr] tg)
  qed
  have others: "Proxy_get px name =
             Inr (spec_member_or_synthesized (created w) (serviceName cfg) (withMsgPack cfg)
                    (base_or_empty bs) name)"
    if "name \<in> set [PStr ''addInterceptor'', PStr ''removeInterceptor'', PStr ''createRequest'']"
      "\<not> pinned (base_or_empty bs) name"
  proof -
    have "get_trap (created w) (serviceName cfg) (withMsgPack cfg) (base_or_empty bs) name The_proxy =
            Inr (spec_member_or_synthesized (created w) (serviceName cfg) (withMsgPack cfg)
                   (base_or_empty bs) name)"
      using that(1)
      by (auto simp: get_trap_def coalesce_def spec_member_or_synthesized_def split: sum.splits)
    with engine_accepts_unpinned [OF that(2)] show ?thesis
      by (simp add: Proxy_get_only_get [OF tr] tg)
  qed
  have ext_none: "remote_call_ext net mp qx name args u = None"
    if n: "name \<in> set control_names"
  proof -
    obtain f where f: "control_function name (created w) = Some f"
      using control_function_cases [OF n] by blast
    have "call_synthesized_ext net mp (Function f) args u = None"
      using f by (auto simp: control_function_def call_synthesized_ext_def split: if_splits)
    with get_trap_ext_control [OF f] show ?thesis
      by (simp add: remote_call_ext_def Proxy_get_only_get [OF tr'] tg')
  qed
  have none: "remote_call net mp px name args u = None"
    if n: "name \<in> set [PStr ''addHeaders'', PStr ''removeHeaders'']"
  proof -
    obtain f where f: "control_function name (created w) = Some f"
      using control_function_cases [OF two [OF n]] by blast
    have "call_synthesized net mp (Function f) args u = None"
      using f by (auto simp: control_function_def call_synthesized_def split: if_splits)
    with get_trap_control [OF n f] show ?thesis
      by (simp add: remote_call_def Proxy_get_only_get [OF tr] tg)
  qed
  have calls_ext:
    "runs_on (call_function_ext net mp (AddHeaders (created w)) args u)
          (created w) (addHeaders_ext args) u"
    "runs_on (call_function_ext net mp (RemoveHeaders (created w)) (map JStr names) u)
          (created w) (removeHeaders_ext names) u"
    "runs_on (call_function_ext net mp (AddInterceptor (created w)) args u)
          (created w) (addInterceptor_ext args) u"
    "runs_on (call_function_ext net mp (RemoveInterceptor (created w)) args u)
          (created w) (removeInterceptor_ext args) u"
    "runs_on (call_function_ext net mp (CreateRequest (created w)) args u)
          (created w) (\<lambda>h. settled (createRequest_ext net args h)) u"
    by (simp_all add: call_function_ext_def string_args_strings runs_on_on_instance runs_on_settled)
  have calls:
    "runs_on (call_function net mp (AddHeaders (created w)) args u)
          (created w) (addHeaders args) u"
    "runs_on (call_function net mp (RemoveHeaders (created w)) (map JStr names) u)
          (created w) (removeHeaders names) u"
    by (simp_all add: call_function_def string_args_strings runs_on_on_instance)
  show ?thesis
    using ext_read ext_pinned ext_none read pinned_read none others calls_ext calls
    by (auto simp: mk mk')
qed

text \<open>
  Two services made one after the other, the second over a frozen base object that holds
  \<open>addHeaders\<close>: the functions read on each are bound to its own instance, calling the
  first proxy's \<open>addHeaders\<close> changes the headers of the first instance only, and the
  read of \<open>addHeaders\<close> on the second throws.
\<close>

theorem control_names_resolution_witness:
  "PStr ''addHeaders'' \<in> set control_names \<and>
   PStr ''addHeaders'' \<in> set [PStr ''addHeaders'', PStr ''removeHeaders''] \<and>
   PStr ''createRequest'' \<in> set control_names \<and>
   PStr ''createRequest'' \<in> set [PStr ''addInterceptor'', PStr ''removeInterceptor'', PStr ''createRequest''] \<and>
   \<not> pinned (base_or_empty (Some existingservice)) (PStr ''addHeaders'') \<and>
   \<not> pinned (base_or_empty (Some existingservice)) (PStr ''createRequest'') \<and>
   pinned (base_or_empty (Some frozen_service)) (PStr ''addHeaders'') \<and>
   (case createService_ext (IMyService_config None) None (Some existingservice) no_instances of
      Inl thrown \<Rightarrow> False
    | Inr (pa, w1) \<Rightarrow>
        (case createService_ext (IMyService_config None) None (Some frozen_service) w1 of
           Inl thrown \<Rightarrow> False
         | Inr (pb, w2) \<Rightarrow>
             Proxy_get pa (PStr ''addHeaders'') = Inr (Function (AddHeaders 0)) \<and>
             Proxy_get pa (PStr ''createRequest'') = Inr (Function (CreateRequest 0)) \<and>
             Proxy_get pb (PStr ''addHeaders'') = Inl invariant_violation \<and>
             Proxy_get pb (PStr ''removeHeaders'') = Inr (Function (RemoveHeaders 1)) \<and>
             (case call_function_ext mock_axios sample_codec (AddHeaders 0)
                     [JObj [(''x-custom-header'', JStr ''true'')]] w2 of
                None \<Rightarrow> False
              | Some (outcome, w3) \<Rightarrow>
                  outcome = Inr JUndefined \<and>
                  defaults_headers (instance_of w3 0) = [(''x-custom-header'', JStr ''true'')] \<and>
                  defaults_headers (instance_of w3 1) = [] \<and>
                  instance_of w3 1 = instance_of w2 1))) \<and>
   (case createService (IMyService_config None) None (Some existingservice) no_instances of
      Inl thrown \<Rightarrow> False
    | Inr (pa, w1) \<Rightarrow>
        Proxy_get pa (PStr ''addHeaders'') = Inr (Function (AddHeaders 0)) \<and>
        Proxy_get pa (PStr ''createRequest'') =
          Inr (Function (DefaultTrap 0 (Some ''IMyService'') (PStr ''createRequest'') False))) \<and>
   (case createService (IMyService_config None) None (Some frozen_service) no_instances of
      Inl thrown \<Rightarrow> False
    | Inr (pb, w1) \<Rightarrow> Proxy_get pb (PStr ''addHeaders'') = Inl invariant_violation)"
proof -
  have names: "PStr ''addHeaders'' \<in> set control_names"
    "PStr ''addHeaders'' \<in> set [PStr ''addHeaders'', PStr ''removeHeaders'']"
    "PStr ''createRequest'' \<in> set control_names"
    "PStr ''createRequest'' \<in> set [PStr ''addInterceptor'', PStr ''removeInterceptor'', PStr ''createRequest'']"
    by (simp_all add: control_names_def)
  have pins: "\<not> pinned (base_or_empty (Some existingservice)) (PStr ''addHeaders'')"
    "\<not> pinned (base_or_empty (Some existingservice)) (PStr ''createRequest'')"
    "pinned (base_or_empty (Some frozen_service)) (PStr ''addHeaders'')"
    by (simp_all add: pinned_def base_or_empty_def existingservice_def frozen_service_def
        frozen_def plain_def)
  have ext: "(case createService_ext (IMyService_config None) None (Some existingservice) no_instances of
      Inl thrown \<Rightarrow> False
    | Inr (pa, w1) \<Rightarrow>
        (case createService_ext (IMyService_config None) None (Some frozen_service) w1 of
           Inl thrown \<Rightarrow> False
         | Inr (pb, w2) \<Rightarrow>
             Proxy_get pa (PStr ''addHeaders'') = Inr (Function (AddHeaders 0)) \<and>
             Proxy_get pa (PStr ''createRequest'') = Inr (Function (CreateRequest 0)) \<and>
             Proxy_get pb (PStr ''addHeaders'') = Inl invariant_violation \<and>
             Proxy_get pb (PStr ''removeHeaders'') = Inr (Function (RemoveHeaders 1)) \<and>
             (case call_function_ext mock_axios sample_codec (AddHeaders 0)
                     [JObj [(''x-custom-header'', JStr ''true'')]] w2 of
                None \<Rightarrow> False
              | Some (outcome, w3) \<Rightarrow>
                  outcome = Inr JUndefined \<and>
                  defaults_headers (instance_of w3 0) = [(''x-custom-header'', JStr ''true'')] \<and>
                  defaults_headers (instance_of w3 1) = [] \<and>
                  instance_of w3 1 = instance_of w2 1)))"
    by (simp add: run_defs frozen_service_def existingservice_def call_function_ext_def
        addHeaders_ext_def spread_into_def and_then_def prop_lookup_def)
  have index: "(case createService (IMyService_config None) None (Some existingservice) no_instances of
      Inl thrown \<Rightarrow> False
    | Inr (pa, w1) \<Rightarrow>
        Proxy_get pa (PStr ''addHeaders'') = Inr (Function (AddHeaders 0)) \<and>
        Proxy_get pa (PStr ''createRequest'') =
          Inr (Function (DefaultTrap 0 (Some ''IMyService'') (PStr ''createRequest'') False)))"
    "(case createService (IMyService_config None) None (Some frozen_service) no_instances of
      Inl thrown \<Rightarrow> False
    | Inr (pb, w1) \<Rightarrow> Proxy_get pb (PStr ''addHeaders'') = Inl invariant_violation)"
    by (simp_all add: run_defs frozen_service_def existingservice_def)
  show ?thesis
    using control_names_resolution [where cfg = "IMyService_config None" and ac = None
        and bs = "Some existingservice" and w = no_instances and name = "PStr ''addHeaders''"
        and net = mock_axios and mp = sample_codec and names = "[]"
        and args = "[JObj [(''x-custom-header'', JStr ''true'')]]" and u = no_instances]
      control_names_resolution [where cfg = "IMyService_config None" and ac = None
        and bs = "Some existingservice" and w = no_instances and name = "PStr ''createRequest''"
        and net = mock_axios and mp = sample_codec and names = "[]"
        and args = "[JObj [(''x-custom-header'', JStr ''true'')]]" and u = no_instances]
      control_names_resolution [where cfg = "IMyService_config None" and ac = None
        and bs = "Some frozen_service" and w = no_instances and name = "PStr ''addHeaders''"
        and net = mock_axios and mp = sample_codec and names = "[]"
        and args = "[JObj [(''x-custom-header'', JStr ''true'')]]" and u = no_instances]
    by (simp add: names pins ext index)
qed

end
